theory Spec2Isabelle
  imports Complex_Main
begin

section \<open>JavaScript numbers\<close>

text \<open>
  A JavaScript \<^verbatim>\<open>number\<close> is a real, \<^verbatim>\<open>NaN\<close> being kept apart as \<open>None\<close> where it can
  arise. In the forecast and in the two distance functions the rounding of double
  arithmetic decides results, and there every operation is written with the rounding
  \<open>fl\<close> below; elsewhere the operations are those of the reals. \<^verbatim>\<open>Math.round\<close> rounds to
  the nearest integer, a half going up.
\<close>

definition Math_round :: "real \<Rightarrow> real" where
  "Math_round x = of_int \<lfloor>x + 1 / 2\<rfloor>"

section \<open>Double arithmetic\<close>

text \<open>
  \<open>fl x\<close> is the double nearest to \<open>x\<close>, a tie going to the even significand: 53
  significant bits above the exponent \<open>binade x\<close>, and steps of \<open>2 powi (- 1074)\<close> in the
  subnormal range. Overflow to \<^verbatim>\<open>Infinity\<close> is not modelled; the numbers met here stay far
  below \<open>2 powi 1024\<close>. A numeric literal of the source denotes the \<open>fl\<close> of its decimal
  value, and an arithmetic operator the \<open>fl\<close> of the exact result.
\<close>

definition binade :: "real \<Rightarrow> int" where
  "binade x = \<lfloor>log 2 \<bar>x\<bar>\<rfloor>"

definition ulp :: "real \<Rightarrow> real" where
  "ulp x = 2 powi (max (binade x - 52) (- 1074))"

definition round_even :: "real \<Rightarrow> int" where
  "round_even y =
     (let f = \<lfloor>y\<rfloor>; r = y - of_int f in
      if r < 1 / 2 then f
      else if r > 1 / 2 then f + 1
      else if even f then f else f + 1)"

definition fl :: "real \<Rightarrow> real" where
  "fl x = (if x = 0 then 0 else ulp x * of_int (round_even (x / ulp x)))"

definition dadd :: "real \<Rightarrow> real \<Rightarrow> real" where
  "dadd x y = fl (x + y)"

definition dsub :: "real \<Rightarrow> real \<Rightarrow> real" where
  "dsub x y = fl (x - y)"

definition dmul :: "real \<Rightarrow> real \<Rightarrow> real" where
  "dmul x y = fl (x * y)"

text \<open>Division, by a divisor other than zero.\<close>

definition ddiv :: "real \<Rightarrow> real \<Rightarrow> real" where
  "ddiv x y = fl (x / y)"

text \<open>\<^verbatim>\<open>Math.PI\<close>, the double \<^verbatim>\<open>3.141592653589793\<close>.\<close>

definition Math_PI :: real where
  "Math_PI = 884279719003555 / 281474976710656"

section \<open>Severity classification\<close>

datatype Severity = Low | Moderate | High | Severe

text \<open>
  \<^verbatim>\<open>RouteService.calculateTrafficLevel\<close>. A zero base duration is written out:
  in JavaScript \<^verbatim>\<open>x / 0\<close> is \<^verbatim>\<open>Infinity\<close> for a positive \<open>x\<close> (every
  threshold is met) and \<^verbatim>\<open>NaN\<close> or \<^verbatim>\<open>-Infinity\<close> otherwise (no threshold is met).
\<close>

definition calculateTrafficLevel :: "real \<Rightarrow> real \<Rightarrow> Severity" where
  "calculateTrafficLevel trafficDelay baseDuration =
     (if baseDuration = 0 then (if 0 < trafficDelay then Severe else Low)
      else
        let delayPercentage = (trafficDelay / baseDuration) * 100 in
        if delayPercentage \<ge> 50 then Severe
        else if delayPercentage \<ge> 25 then High
        else if delayPercentage \<ge> 10 then Moderate
        else Low)"


section \<open>Strings\<close>

text \<open>\<^verbatim>\<open>s.startsWith(p)\<close>.\<close>

definition startsWith :: "string \<Rightarrow> string \<Rightarrow> bool" where
  "startsWith s p = (take (length p) s = p)"

text \<open>The decimal rendering of a non-negative integer inside a template literal.\<close>

fun show_nat :: "nat \<Rightarrow> string" where
  "show_nat n =
     (if n < 10 then [''0123456789'' ! n]
      else show_nat (n div 10) @ [''0123456789'' ! (n mod 10)])"

declare show_nat.simps [simp del]

text \<open>
  \<^verbatim>\<open>s.split(sep)\<close> for a non-empty separator: the pieces between the successive
  non-overlapping occurrences of \<open>sep\<close>, read from the left. \<open>cur\<close> holds the piece being
  read, reversed.
\<close>

function split_from :: "string \<Rightarrow> string \<Rightarrow> string \<Rightarrow> string list" where
  "split_from sep cur [] = [rev cur]"
| "split_from sep cur (c # cs) =
     (if sep \<noteq> [] \<and> take (length sep) (c # cs) = sep
      then rev cur # split_from sep [] (drop (length sep) (c # cs))
      else split_from sep (c # cur) cs)"
  by pat_completeness auto
termination
  by (relation "measure (\<lambda>(sep, cur, s). length s)") auto

definition split :: "string \<Rightarrow> string \<Rightarrow> string list" where
  "split s sep = split_from sep [] s"

section \<open>Errors\<close>

text \<open>
  A thrown value or a rejected promise: \<^verbatim>\<open>new Error(msg)\<close>, or the \<^verbatim>\<open>TypeError\<close> of reading
  a property of \<^verbatim>\<open>undefined\<close>. A function that can throw returns \<open>js_error + 'a\<close>.
\<close>

datatype js_error = Error string | TypeError

section \<open>The mapping client\<close>

text \<open>
  The provider's data, as the interfaces of the mapping client declare it. Field names are
  global in a theory, so where two interfaces share a name the fields carry a short tag
  of their interface. Of \<^verbatim>\<open>distance\<close>, \<^verbatim>\<open>duration\<close> and \<^verbatim>\<open>duration_in_traffic\<close> only
  \<^verbatim>\<open>value\<close> is read by the services; \<^verbatim>\<open>text\<close> is only logged.
\<close>

record LatLng =
  lat :: real
  lng :: real

record PlaceResult =
  place_id :: string
  formatted_address :: string
  geometry_location :: LatLng
  place_name :: string
  types :: "string list"

record RouteLeg =
  distance_value :: real
  duration_value :: real
  duration_in_traffic_value :: "real option"

record GoogleRoute =
  legs :: "RouteLeg list"
  overview_polyline_points :: string
  summary :: string

record DirectionsResult =
  dr_routes :: "GoogleRoute list"
  dr_status :: string

text \<open>
  \<^verbatim>\<open>GoogleMapsService.calculateDirections\<close>. \<open>load\<close> is the outcome of awaiting
  \<^verbatim>\<open>loadGoogleMaps\<close> (an error when it rejects), \<open>window_google\<close> and
  \<open>directions_service\<close> say whether the SDK objects exist, and \<open>status\<close>, \<open>result\<close> are
  what the provider hands to the callback. The promise resolves only in the branch
  \<^verbatim>\<open>status === OK && result\<close>; every other branch rejects. In that branch the log line
  reads \<^verbatim>\<open>route.legs[0].distance\<close> of every alternative first, and throws a
  \<^verbatim>\<open>TypeError\<close> on an alternative without legs, before the promise is resolved; that
  outcome is the error \<open>TypeError\<close> here.
\<close>

definition calculateDirections ::
  "js_error option \<Rightarrow> bool \<Rightarrow> bool \<Rightarrow> string \<Rightarrow> GoogleRoute list option
     \<Rightarrow> js_error + DirectionsResult" where
  "calculateDirections load window_google directions_service status result =
     (case load of
        Some e \<Rightarrow> Inl e
      | None \<Rightarrow>
          if \<not> window_google then Inl (Error ''Google Maps not loaded'')
          else if \<not> directions_service then Inl (Error ''DirectionsService not available'')
          else
            (case result of
               Some rs \<Rightarrow>
                 if status = ''OK'' then
                   (if \<exists>route \<in> set rs. legs route = [] then Inl TypeError
                    else Inr \<lparr>dr_routes = rs, dr_status = status\<rparr>)
                 else Inl (Error (''Directions request failed: '' @ status))
             | None \<Rightarrow> Inl (Error (''Directions request failed: '' @ status))))"

section \<open>The route comparison service\<close>

datatype ResponseStatus = success | error

text \<open>
  \<^verbatim>\<open>RouteResult\<close>, without \<^verbatim>\<open>steps\<close>: the turn-by-turn list is the provider's steps with
  their markup stripped, and nothing below reads it. An optional property is an \<open>option\<close>;
  \<open>None\<close> stands for \<^verbatim>\<open>undefined\<close> and for \<^verbatim>\<open>null\<close> alike.
\<close>

record RouteResult =
  ident :: string
  name :: string
  distance :: real
  duration :: real
  durationWithTraffic :: real
  trafficDelay :: real
  trafficLevel :: Severity
  description :: string
  isRecommended :: bool
  savings :: "real option"
  waypoints :: "string list option"
  polyline :: "string option"

record RouteResponse =
  routes :: "RouteResult list"
  status :: ResponseStatus
  message :: "string option"

record RouteRequest =
  origin :: LatLng
  destination :: string
  userId :: "string option"

definition getDirectionsErrorMessage :: "string \<Rightarrow> string" where
  "getDirectionsErrorMessage st =
     (if st = ''NOT_FOUND'' then
        ''One or more locations could not be found. Please check your destination and try again.''
      else if st = ''ZERO_RESULTS'' then
        ''No route could be found between these locations. Try a different destination or travel mode.''
      else if st = ''MAX_WAYPOINTS_EXCEEDED'' then
        ''Too many waypoints in the request. Please simplify your route.''
      else if st = ''INVALID_REQUEST'' then
        ''Invalid route request. Please check your input and try again.''
      else if st = ''OVER_QUERY_LIMIT'' then
        ''Service temporarily unavailable due to high demand. Please try again in a moment.''
      else if st = ''REQUEST_DENIED'' then
        ''Route service access denied. Please contact support.''
      else if st = ''UNKNOWN_ERROR'' then
        ''An unknown error occurred. Please try again.''
      else ''Unable to calculate routes. Please try again.'')"

fun trafficDescriptions :: "Severity \<Rightarrow> string" where
  "trafficDescriptions Severe = ''Heavy congestion expected''"
| "trafficDescriptions High = ''Moderate to heavy traffic''"
| "trafficDescriptions Moderate = ''Some traffic delays''"
| "trafficDescriptions Low = ''Light traffic conditions''"

text \<open>An empty summary is falsy, so \<^verbatim>\<open>route.summary || d\<close> is \<open>d\<close> for it.\<close>

definition generateRouteDescription :: "GoogleRoute \<Rightarrow> Severity \<Rightarrow> string" where
  "generateRouteDescription route level =
     (if summary route = [] then ''Standard route'' else summary route)
       @ '' - '' @ trafficDescriptions level"

definition extractWaypoints :: "GoogleRoute \<Rightarrow> string list" where
  "extractWaypoints route =
     take 3 (filter (\<lambda>w. length w > 0) (split (summary route) '' and ''))"

text \<open>
  \<^verbatim>\<open>calculateSavings\<close>. \<^verbatim>\<open>routes[currentIndex]\<close> out of range is \<^verbatim>\<open>undefined\<close>, whose
  property read throws, and \<^verbatim>\<open>reduce\<close> without an initial value throws on an empty
  array; otherwise it starts from the first element.
\<close>

definition calculateSavings :: "RouteResult list \<Rightarrow> nat \<Rightarrow> js_error + real option" where
  "calculateSavings rs currentIndex =
     (if length rs \<le> 1 then Inr None
      else if length rs \<le> currentIndex then Inl TypeError
      else
        let currentRoute = rs ! currentIndex;
            otherRoutes = map snd (filter (\<lambda>(index, _). index \<noteq> currentIndex) (enumerate 0 rs))
        in
          (case otherRoutes of
             [] \<Rightarrow> Inl TypeError
           | first # others \<Rightarrow>
               let fastestOther =
                     foldl (\<lambda>fastest route.
                              if durationWithTraffic route < durationWithTraffic fastest
                              then route else fastest) first others;
                   saved = durationWithTraffic fastestOther - durationWithTraffic currentRoute
               in Inr (if saved > 0 then Some (Math_round saved) else None)))"

text \<open>
  The body of \<^verbatim>\<open>directionsResult.routes.map\<close> for one alternative. \<^verbatim>\<open>route.legs[0]\<close> of
  an alternative without legs is \<^verbatim>\<open>undefined\<close>, and reading its distance throws.
\<close>

definition convertRoute :: "nat \<Rightarrow> GoogleRoute \<Rightarrow> js_error + RouteResult" where
  "convertRoute index route =
     (case legs route of
        [] \<Rightarrow> Inl TypeError
      | leg # _ \<Rightarrow>
          let dist = distance_value leg / 1609.34;
              dur = Math_round (duration_value leg / 60);
              durTraffic =
                (case duration_in_traffic_value leg of
                   Some v \<Rightarrow> Math_round (v / 60)
                 | None \<Rightarrow> dur);
              delay = max 0 (durTraffic - dur);
              level = calculateTrafficLevel delay dur;
              recommended = (index = 0 \<and> level \<noteq> Severe)
          in Inr \<lparr>ident = ''route-'' @ show_nat index,
                  name = (if summary route = [] then ''Route '' @ show_nat (index + 1)
                          else summary route),
                  distance = dist,
                  duration = dur,
                  durationWithTraffic = durTraffic,
                  trafficDelay = delay,
                  trafficLevel = level,
                  description = generateRouteDescription route level,
                  isRecommended = recommended,
                  savings = None,
                  waypoints = Some (extractWaypoints route),
                  polyline = Some (overview_polyline_points route)\<rparr>)"

text \<open>\<^verbatim>\<open>Array.map\<close> with a callback that can throw: the first throw ends the map.\<close>

fun map_routes :: "(nat \<times> GoogleRoute) list \<Rightarrow> js_error + RouteResult list" where
  "map_routes [] = Inr []"
| "map_routes ((index, route) # rest) =
     (case convertRoute index route of
        Inl e \<Rightarrow> Inl e
      | Inr r \<Rightarrow> (case map_routes rest of Inl e \<Rightarrow> Inl e | Inr rs \<Rightarrow> Inr (r # rs)))"

text \<open>
  \<^verbatim>\<open>routes.forEach\<close> of the savings pass, over the indices still to visit; the array is
  updated in place, so each call of \<^verbatim>\<open>calculateSavings\<close> sees the updates before it.
  It is run on the indices of the array, \<open>[0..<length rs]\<close>.
\<close>

fun forEach_savings :: "nat list \<Rightarrow> RouteResult list \<Rightarrow> js_error + RouteResult list" where
  "forEach_savings [] rs = Inr rs"
| "forEach_savings (index # rest) rs =
     (if isRecommended (rs ! index) then
        (case calculateSavings rs index of
           Inl e \<Rightarrow> Inl e
         | Inr s \<Rightarrow> forEach_savings rest (rs[index := (rs ! index)\<lparr>savings := s\<rparr>]))
      else forEach_savings rest rs)"

text \<open>
  \<^verbatim>\<open>calculateRoutesWithJSSDK\<close>. \<open>places\<close> and \<open>directions\<close> are the outcomes of the two
  awaited calls, \<^verbatim>\<open>searchPlaces(request.destination)\<close> and \<^verbatim>\<open>calculateDirections(...)\<close>.
  Saving the batch for a signed-in user swallows its own failures and does not change
  the response, so it is not part of the returned value. \<open>scoreRoutes\<close> is the part of
  the outer \<^verbatim>\<open>try\<close> that can throw; the outer \<^verbatim>\<open>catch\<close> turns a throw into a response.
\<close>

definition scoreRoutes :: "GoogleRoute list \<Rightarrow> js_error + RouteResult list" where
  "scoreRoutes alternatives =
     (case map_routes (enumerate 0 alternatives) of
        Inl e \<Rightarrow> Inl e
      | Inr rs \<Rightarrow> forEach_savings [0..<length rs] rs)"

definition calculateRoutesWithJSSDK ::
  "RouteRequest \<Rightarrow> js_error + PlaceResult list \<Rightarrow> js_error + DirectionsResult \<Rightarrow> RouteResponse"
  where
  "calculateRoutesWithJSSDK request places directions =
     (case places of
        Inl e \<Rightarrow>
          \<lparr>routes = [], status = error,
           message = Some ''Unable to search for destination. Please check your internet connection and try again.''\<rparr>
      | Inr [] \<Rightarrow>
          \<lparr>routes = [], status = error,
           message = Some (''No results found for '' @ [CHR 0x22] @ destination request
             @ [CHR 0x22] @ ''. Please try a more specific location or check the spelling.'')\<rparr>
      | Inr (destinationPlace # _) \<Rightarrow>
          (case directions of
             Inl e \<Rightarrow>
               \<lparr>routes = [], status = error,
                message = Some ''Unable to calculate routes. Please try again or check if the destination is reachable by car.''\<rparr>
           | Inr directionsResult \<Rightarrow>
               if dr_status directionsResult \<noteq> ''OK'' then
                 \<lparr>routes = [], status = error,
                  message = Some (getDirectionsErrorMessage (dr_status directionsResult))\<rparr>
               else
                 (case scoreRoutes (dr_routes directionsResult) of
                    Inl e \<Rightarrow>
                      \<lparr>routes = [], status = error,
                       message = Some ''An unexpected error occurred while calculating routes. Please try again.''\<rparr>
                  | Inr rs \<Rightarrow> \<lparr>routes = rs, status = success, message = None\<rparr>)))"

text \<open>
  \<^verbatim>\<open>calculateRoutes\<close>: its \<^verbatim>\<open>catch\<close> is never entered, since the function it awaits
  returns a response on every path.
\<close>

definition calculateRoutes ::
  "RouteRequest \<Rightarrow> js_error + PlaceResult list \<Rightarrow> js_error + DirectionsResult \<Rightarrow> RouteResponse"
  where
  "calculateRoutes request places directions = calculateRoutesWithJSSDK request places directions"

section \<open>Saved routes\<close>

text \<open>
  \<^verbatim>\<open>RouteRecord\<close>, a row of \<^verbatim>\<open>saved_routes\<close>. The columns that share a name with a
  property of \<^verbatim>\<open>RouteResult\<close> carry the tag \<open>rec\<close>.
\<close>

record RouteRecord =
  rec_id :: "string option"
  rec_user_id :: "string option"
  origin_lat :: real
  origin_lng :: real
  rec_destination :: string
  destination_lat :: "real option"
  destination_lng :: "real option"
  route_name :: string
  rec_distance :: real
  rec_duration :: real
  duration_with_traffic :: real
  traffic_delay :: real
  traffic_level :: string
  rec_description :: string
  is_recommended :: bool
  rec_savings :: "real option"
  rec_waypoints :: "string list option"
  rec_polyline :: "string option"
  created_at :: "string option"
  updated_at :: "string option"

text \<open>
  The four levels are string literals at run time; the column \<^verbatim>\<open>traffic_level\<close> is
  declared a plain string.
\<close>

fun severity_literal :: "Severity \<Rightarrow> string" where
  "severity_literal Low = ''low''"
| "severity_literal Moderate = ''moderate''"
| "severity_literal High = ''high''"
| "severity_literal Severe = ''severe''"

text \<open>
  The assertion \<^verbatim>\<open>route.traffic_level as 'low' | 'moderate' | 'high' | 'severe'\<close> is not
  checked at run time. A string outside the four literals has no value in the asserted
  type: \<open>None\<close>.
\<close>

definition as_trafficLevel :: "string \<Rightarrow> Severity option" where
  "as_trafficLevel s =
     (if s = ''low'' then Some Low
      else if s = ''moderate'' then Some Moderate
      else if s = ''high'' then Some High
      else if s = ''severe'' then Some Severe
      else None)"

text \<open>
  The object \<^verbatim>\<open>saveRoutesToDatabase\<close> hands to \<^verbatim>\<open>SupabaseService.saveRoute\<close> for one route.
  \<^verbatim>\<open>x || 0\<close> on a number is \<open>x\<close> itself (\<open>0\<close> for \<open>0\<close>), and \<open>0\<close> when the place or its
  coordinate is missing.
\<close>

definition routeRecord ::
  "RouteRequest \<Rightarrow> string \<Rightarrow> PlaceResult option \<Rightarrow> RouteResult \<Rightarrow> RouteRecord" where
  "routeRecord request dest destinationPlace route =
     \<lparr>rec_id = None,
      rec_user_id = userId request,
      origin_lat = lat (origin request),
      origin_lng = lng (origin request),
      rec_destination = dest,
      destination_lat =
        Some (case destinationPlace of None \<Rightarrow> 0 | Some p \<Rightarrow> lat (geometry_location p)),
      destination_lng =
        Some (case destinationPlace of None \<Rightarrow> 0 | Some p \<Rightarrow> lng (geometry_location p)),
      route_name = name route,
      rec_distance = distance route,
      rec_duration = duration route,
      duration_with_traffic = durationWithTraffic route,
      traffic_delay = trafficDelay route,
      traffic_level = severity_literal (trafficLevel route),
      rec_description = description route,
      is_recommended = isRecommended route,
      rec_savings = savings route,
      rec_waypoints = waypoints route,
      rec_polyline = polyline route,
      created_at = None,
      updated_at = None\<rparr>"

text \<open>
  \<^verbatim>\<open>saveRoutesToDatabase\<close>: the rows it inserts, one per route of the batch, in order.
  \<^verbatim>\<open>saveRoute\<close> catches its own failures, so the loop visits every route.
\<close>

definition saveRoutesToDatabase ::
  "RouteRequest \<Rightarrow> RouteResult list \<Rightarrow> string \<Rightarrow> PlaceResult option \<Rightarrow> RouteRecord list" where
  "saveRoutesToDatabase request rs dest destinationPlace =
     map (routeRecord request dest destinationPlace) rs"

text \<open>
  The backend is not code of this repository. A stored row is taken to be the inserted
  row with the columns the backend fills in (\<^verbatim>\<open>id\<close>, \<^verbatim>\<open>created_at\<close>, \<^verbatim>\<open>updated_at\<close>); every
  other column is kept as written.
\<close>

definition storedRoute :: "string \<Rightarrow> string \<Rightarrow> string \<Rightarrow> RouteRecord \<Rightarrow> RouteRecord" where
  "storedRoute new_id created updated row =
     row\<lparr>rec_id := Some new_id, created_at := Some created, updated_at := Some updated\<rparr>"

text \<open>
  The body of \<^verbatim>\<open>savedRoutes.map\<close> in \<^verbatim>\<open>getSavedRoutes\<close>. \<^verbatim>\<open>route.id!\<close> and the \<^verbatim>\<open>as\<close> on the
  level are unchecked assertions; a row that breaks one yields \<open>None\<close>, a value outside
  \<^verbatim>\<open>RouteResult\<close>.
\<close>

definition savedRoute :: "RouteRecord \<Rightarrow> RouteResult option" where
  "savedRoute route =
     (case rec_id route of
        None \<Rightarrow> None
      | Some i \<Rightarrow>
          (case as_trafficLevel (traffic_level route) of
             None \<Rightarrow> None
           | Some level \<Rightarrow>
               Some \<lparr>ident = i,
                     name = route_name route,
                     distance = rec_distance route,
                     duration = rec_duration route,
                     durationWithTraffic = duration_with_traffic route,
                     trafficDelay = traffic_delay route,
                     trafficLevel = level,
                     description = rec_description route,
                     isRecommended = is_recommended route,
                     savings = rec_savings route,
                     waypoints = rec_waypoints route,
                     polyline = rec_polyline route\<rparr>))"

text \<open>
  \<^verbatim>\<open>getSavedRoutes\<close>, on the outcome of \<^verbatim>\<open>SupabaseService.getUserRoutes\<close>; a throw of the
  query is caught and gives the empty list.
\<close>

definition getSavedRoutes :: "js_error + RouteRecord list \<Rightarrow> RouteResult option list" where
  "getSavedRoutes savedRoutes =
     (case savedRoutes of Inl e \<Rightarrow> [] | Inr rows \<Rightarrow> map savedRoute rows)"

section \<open>The savings rule, as the specification words it\<close>

text \<open>
  The other routes of a batch, the gap between the fastest of them and route \<open>i\<close> in
  minutes with traffic, and the savings the specification asks for: defined on the
  recommended route only, and only when the gap is positive.
\<close>

definition otherRoutes :: "RouteResult list \<Rightarrow> nat \<Rightarrow> RouteResult list" where
  "otherRoutes rs i = take i rs @ drop (Suc i) rs"

definition fastestOtherGap :: "RouteResult list \<Rightarrow> nat \<Rightarrow> real" where
  "fastestOtherGap rs i =
     Min (set (map durationWithTraffic (otherRoutes rs i))) - durationWithTraffic (rs ! i)"

definition expectedSavings :: "RouteResult list \<Rightarrow> nat \<Rightarrow> real option" where
  "expectedSavings rs i =
     (if isRecommended (rs ! i) \<and> 1 < length rs \<and> 0 < fastestOtherGap rs i
      then Some (fastestOtherGap rs i) else None)"

section \<open>Sample inputs\<close>

definition sample_request :: RouteRequest where
  "sample_request =
     \<lparr>origin = \<lparr>lat = 0, lng = 0\<rparr>, destination = ''Airport'', userId = Some ''u1''\<rparr>"

definition sample_place :: PlaceResult where
  "sample_place =
     \<lparr>place_id = ''p1'', formatted_address = ''1 Main St'',
      geometry_location = \<lparr>lat = 1, lng = 1\<rparr>, place_name = ''Airport'', types = []\<rparr>"

text \<open>An alternative of ten miles with the given durations in seconds.\<close>

definition sample_alternative :: "real \<Rightarrow> real option \<Rightarrow> GoogleRoute" where
  "sample_alternative d t =
     \<lparr>legs = [\<lparr>distance_value = 16093.4, duration_value = d, duration_in_traffic_value = t\<rparr>],
      overview_polyline_points = ''p'', summary = ''I-5 and Main St''\<rparr>"

text \<open>
  The response to a search whose alternatives all take 25 minutes without traffic and
  the given numbers of seconds with traffic.
\<close>

definition sample_batch :: "real list \<Rightarrow> RouteResponse" where
  "sample_batch secs =
     calculateRoutes sample_request (Inr [sample_place])
       (calculateDirections None True True ''OK''
          (Some (map (\<lambda>t. sample_alternative 1500 (Some t)) secs)))"

section \<open>More of the JavaScript library\<close>

definition Math_floor :: "real \<Rightarrow> real" where
  "Math_floor x = of_int \<lfloor>x\<rfloor>"

text \<open>
  \<^verbatim>\<open>Math.sqrt\<close>: \<^verbatim>\<open>NaN\<close>, here \<open>None\<close>, for a negative number, and otherwise the double
  nearest to the root, as IEEE 754 has it.
\<close>

definition Math_sqrt :: "real \<Rightarrow> real option" where
  "Math_sqrt x = (if x < 0 then None else Some (fl (sqrt x)))"

text \<open>
  \<^verbatim>\<open>Math.sin\<close>, \<^verbatim>\<open>Math.cos\<close> and \<^verbatim>\<open>Math.atan2\<close> return approximations that the language
  leaves to the implementation. They are parameters of the distance functions: doubles
  for doubles.
\<close>

record MathLib =
  Math_sin :: "real \<Rightarrow> real"
  Math_cos :: "real \<Rightarrow> real"
  Math_atan2 :: "real \<Rightarrow> real \<Rightarrow> real"

section \<open>Traffic conditions\<close>

record Location = LatLng +
  address :: string

text \<open>
  A \<^verbatim>\<open>Date\<close> is its time value in milliseconds, \<open>None\<close> for an invalid date, whose
  \<^verbatim>\<open>getTime()\<close> is \<^verbatim>\<open>NaN\<close>.
\<close>

record TrafficCondition =
  tc_id :: string
  location :: Location
  severity :: Severity
  speed :: real
  tc_duration :: real
  tc_confidence :: real
  timestamp :: "int option"
  predictedDuration :: real
  affectedRoutes :: "string list"
  cause :: "string option"
  tc_description :: "string option"

text \<open>
  \<^verbatim>\<open>TrafficRecord\<close>, a row of \<^verbatim>\<open>traffic_conditions\<close>. \<open>tr_timestamp\<close> is the date
  \<^verbatim>\<open>new Date(record.timestamp)\<close> makes of the stored text.
\<close>

record TrafficRecord =
  tr_id :: "string option"
  location_lat :: real
  location_lng :: real
  location_address :: string
  tr_severity :: Severity
  tr_speed :: real
  tr_duration :: real
  tr_confidence :: real
  tr_timestamp :: "int option"
  predicted_duration :: real
  affected_routes :: "string list"
  tr_cause :: "string option"
  tr_description :: "string option"
  tr_user_id :: "string option"

section \<open>The two distance functions\<close>

text \<open>
  \<^verbatim>\<open>SupabaseService.toRadians\<close> and \<^verbatim>\<open>SupabaseService.calculateDistance\<close>. A product of
  several factors is taken from the left.
\<close>

definition toRadians :: "real \<Rightarrow> real" where
  "toRadians degrees = dmul degrees (ddiv Math_PI 180)"

definition SupabaseService_calculateDistance ::
  "MathLib \<Rightarrow> real \<Rightarrow> real \<Rightarrow> real \<Rightarrow> real \<Rightarrow> real option" where
  "SupabaseService_calculateDistance m lat1 lng1 lat2 lng2 =
     (let R = 3959;
          dLat = toRadians (dsub lat2 lat1);
          dLng = toRadians (dsub lng2 lng1);
          a = dadd
                (dmul (Math_sin m (ddiv dLat 2)) (Math_sin m (ddiv dLat 2)))
                (dmul
                   (dmul
                      (dmul (Math_cos m (toRadians lat1)) (Math_cos m (toRadians lat2)))
                      (Math_sin m (ddiv dLng 2)))
                   (Math_sin m (ddiv dLng 2)))
      in case Math_sqrt a of
           None \<Rightarrow> None
         | Some y \<Rightarrow>
             (case Math_sqrt (dsub 1 a) of
                None \<Rightarrow> None
              | Some x \<Rightarrow> Some (dmul R (dmul 2 (Math_atan2 m y x)))))"

text \<open>\<^verbatim>\<open>TrafficService.calculateDistance\<close>; \<^verbatim>\<open>x * Math.PI / 180\<close> multiplies first.\<close>

definition TrafficService_calculateDistance ::
  "MathLib \<Rightarrow> real \<Rightarrow> real \<Rightarrow> real \<Rightarrow> real \<Rightarrow> real option" where
  "TrafficService_calculateDistance m lat1 lng1 lat2 lng2 =
     (let R = 6371;
          dLat = ddiv (dmul (dsub lat2 lat1) Math_PI) 180;
          dLng = ddiv (dmul (dsub lng2 lng1) Math_PI) 180;
          a = dadd
                (dmul (Math_sin m (ddiv dLat 2)) (Math_sin m (ddiv dLat 2)))
                (dmul
                   (dmul
                      (dmul (Math_cos m (ddiv (dmul lat1 Math_PI) 180))
                            (Math_cos m (ddiv (dmul lat2 Math_PI) 180)))
                      (Math_sin m (ddiv dLng 2)))
                   (Math_sin m (ddiv dLng 2)))
      in case Math_sqrt a of
           None \<Rightarrow> None
         | Some y \<Rightarrow>
             (case Math_sqrt (dsub 1 a) of
                None \<Rightarrow> None
              | Some x \<Rightarrow> Some (dmul R (dmul 2 (Math_atan2 m y x)))))"

text \<open>\<^verbatim>\<open>distance <= radius\<close>, false when the distance is \<^verbatim>\<open>NaN\<close>.\<close>

definition withinRadius :: "real option \<Rightarrow> real \<Rightarrow> bool" where
  "withinRadius d radius = (case d of None \<Rightarrow> False | Some x \<Rightarrow> x \<le> radius)"

text \<open>
  \<^verbatim>\<open>SupabaseService.getTrafficConditions\<close>. \<open>configured\<close> says whether the client exists,
  and \<open>query\<close> is the outcome of the select: an error, or the rows (\<open>None\<close> for
  \<^verbatim>\<open>null\<close>).
\<close>

definition SupabaseService_getTrafficConditions ::
  "MathLib \<Rightarrow> bool \<Rightarrow> js_error + TrafficRecord list option \<Rightarrow> LatLng \<Rightarrow> real
     \<Rightarrow> TrafficRecord list" where
  "SupabaseService_getTrafficConditions m configured query loc radius =
     (if \<not> configured then []
      else
        (case query of
           Inl e \<Rightarrow> []
         | Inr None \<Rightarrow> []
         | Inr (Some rows) \<Rightarrow>
             filter (\<lambda>condition.
                       withinRadius (SupabaseService_calculateDistance m (lat loc) (lng loc)
                                 (location_lat condition) (location_lng condition)) radius)
                    rows))"

text \<open>
  \<^verbatim>\<open>findNearbyPlaces\<close>. \<open>results\<close> are the outcomes of the searches, one per query in
  the order of the queries; a failed search is skipped, and the loop stops once ten
  places are collected.
\<close>

definition nearbyPlaces ::
  "MathLib \<Rightarrow> LatLng \<Rightarrow> real \<Rightarrow> PlaceResult list \<Rightarrow> PlaceResult list" where
  "nearbyPlaces m center radius places =
     filter (\<lambda>place.
               withinRadius (TrafficService_calculateDistance m (lat center) (lng center)
                         (lat (geometry_location place)) (lng (geometry_location place))) radius)
            places"

fun collectPlaces ::
  "MathLib \<Rightarrow> LatLng \<Rightarrow> real \<Rightarrow> (js_error + PlaceResult list) list \<Rightarrow> PlaceResult list
     \<Rightarrow> PlaceResult list"
  where
  "collectPlaces m center radius [] allPlaces = allPlaces"
| "collectPlaces m center radius (result # rest) allPlaces =
     (case result of
        Inl e \<Rightarrow> collectPlaces m center radius rest allPlaces
      | Inr places \<Rightarrow>
          (let allPlaces' = allPlaces @ nearbyPlaces m center radius places in
           if length allPlaces' \<ge> 10 then allPlaces'
           else collectPlaces m center radius rest allPlaces'))"

fun findIndex :: "('a \<Rightarrow> bool) \<Rightarrow> 'a list \<Rightarrow> nat option" where
  "findIndex P [] = None"
| "findIndex P (x # xs) = (if P x then Some 0 else map_option Suc (findIndex P xs))"

definition findNearbyPlaces ::
  "MathLib \<Rightarrow> LatLng \<Rightarrow> real \<Rightarrow> (js_error + PlaceResult list) list \<Rightarrow> PlaceResult list"
  where
  "findNearbyPlaces m center radius results =
     (let allPlaces = collectPlaces m center radius results [];
          uniquePlaces =
            take 8 (map snd
              (filter (\<lambda>(index, place).
                         Some index = findIndex (\<lambda>p. place_id p = place_id place) allPlaces)
                      (enumerate 0 allPlaces)))
      in uniquePlaces)"

section \<open>The world outside\<close>

text \<open>
  What a call reads from outside the code: \<open>math\<close> is the library of the engine,
  \<open>sdk_load\<close> is the outcome of awaiting
  \<^verbatim>\<open>loadGoogleMaps\<close>, \<open>google_maps\<close> whether \<^verbatim>\<open>window.google.maps\<close> exists, \<open>now\<close> the clock
  in milliseconds, \<open>getHours\<close> the local hour, \<open>random\<close> the successive results of
  \<^verbatim>\<open>Math.random()\<close> in the simulation and \<open>accuracy_draw\<close> the one made for the forecast's
  accuracy, \<open>reverseGeocode\<close> the answer of \<^verbatim>\<open>getReverseGeocodedAddress\<close> (\<open>None\<close> when it
  fails), \<open>toFixed4\<close> the rendering \<^verbatim>\<open>x.toFixed(4)\<close>, \<open>supabase_configured\<close> and
  \<open>cache_query\<close> the backend client and its answer, \<open>searches\<close> the outcomes of the six
  place searches, and \<open>probe\<close> the conditions the sequential directions requests of
  \<^verbatim>\<open>fetchRealTrafficData\<close> derive from the places they are given, empty when the
  30-second timer wins.
\<close>

record World =
  math :: MathLib
  sdk_load :: "js_error option"
  google_maps :: bool
  now :: nat
  getHours :: nat
  random :: "nat \<Rightarrow> real"
  accuracy_draw :: real
  reverseGeocode :: "real \<Rightarrow> real \<Rightarrow> string option"
  toFixed4 :: "real \<Rightarrow> string"
  supabase_configured :: bool
  cache_query :: "js_error + TrafficRecord list option"
  searches :: "(js_error + PlaceResult list) list"
  probe :: "PlaceResult list \<Rightarrow> TrafficCondition list"

section \<open>The cache of traffic conditions\<close>

text \<open>
  The conversion of a cached row. \<^verbatim>\<open>record.id!\<close> is an unchecked assertion: on a row
  without an identifier the later \<^verbatim>\<open>condition.id.startsWith\<close> throws; such a row converts
  to \<open>None\<close>.
\<close>

definition cachedCondition :: "TrafficRecord \<Rightarrow> TrafficCondition option" where
  "cachedCondition row =
     (case tr_id row of
        None \<Rightarrow> None
      | Some i \<Rightarrow>
          Some \<lparr>tc_id = i,
                location = \<lparr>lat = location_lat row, lng = location_lng row,
                            address = location_address row\<rparr>,
                severity = tr_severity row,
                speed = tr_speed row,
                tc_duration = tr_duration row,
                tc_confidence = tr_confidence row,
                timestamp = tr_timestamp row,
                predictedDuration = predicted_duration row,
                affectedRoutes = affected_routes row,
                cause = tr_cause row,
                tc_description = tr_description row\<rparr>)"

text \<open>The filter callback; a comparison with \<^verbatim>\<open>NaN\<close> is false.\<close>

definition isRecentReal :: "int \<Rightarrow> TrafficCondition \<Rightarrow> bool" where
  "isRecentReal time_now condition =
     (let isRecent = (case timestamp condition of
                        None \<Rightarrow> False
                      | Some t \<Rightarrow> time_now - t < 5 * 60 * 1000);
          isReal = startsWith (tc_id condition) ''real-traffic-''
      in isRecent \<and> isReal)"

text \<open>
  The cache block of \<^verbatim>\<open>getCurrentTrafficConditions\<close>: \<open>Some cs\<close> when it returns \<open>cs\<close>,
  \<open>None\<close> when control goes on to the live fetch, which it also does when the filter
  throws on a row without identifier and the \<^verbatim>\<open>catch\<close> of the block swallows it.
\<close>

definition cachedConditions :: "int \<Rightarrow> TrafficRecord list \<Rightarrow> TrafficCondition list option" where
  "cachedConditions time_now supabaseConditions =
     (if supabaseConditions = [] then None
      else
        (case those (map cachedCondition supabaseConditions) of
           None \<Rightarrow> None
         | Some conditions \<Rightarrow>
             (let recentRealConditions = filter (isRecentReal time_now) conditions in
              if recentRealConditions \<noteq> [] then Some recentRealConditions else None)))"

section \<open>The hour-of-day simulation\<close>

text \<open>\<^verbatim>\<open>severity.charAt(0).toUpperCase() + severity.slice(1)\<close> on the four literals.\<close>

fun severity_capitalized :: "Severity \<Rightarrow> string" where
  "severity_capitalized Low = ''Low''"
| "severity_capitalized Moderate = ''Moderate''"
| "severity_capitalized High = ''High''"
| "severity_capitalized Severe = ''Severe''"

text \<open>The warning sign that opens a simulated description, as its bytes in UTF-8.\<close>

definition warning_sign :: string where
  "warning_sign = [CHR 0xE2, CHR 0x9A, CHR 0xA0, CHR 0xEF, CHR 0xB8, CHR 0x8F]"

text \<open>
  One turn of the loop of \<^verbatim>\<open>generateLocationAwareSimulation\<close>: the condition at index
  \<open>i\<close>, and the number of draws made so far, \<open>k\<close> before the turn. The draws are taken in
  the order of the source: the offset, then level and speed (speed alone at night), then
  the duration, then the predicted duration. An address that is missing or empty is
  replaced. The identifier and the time stamp read the clock once.
\<close>

definition simulatedCondition ::
  "World \<Rightarrow> LatLng \<Rightarrow> string \<Rightarrow> int \<Rightarrow> nat \<Rightarrow> nat \<Rightarrow> TrafficCondition \<times> nat" where
  "simulatedCondition w loc cityName numConditions i k =
     (let angle = (real i / real_of_int numConditions) * 2 * pi;
          dist = 0.01 * (0.5 + random w k * 0.5);
          conditionLocation = \<lparr>lat = lat loc + cos angle * dist,
                               lng = lng loc + sin angle * dist\<rparr>;
          addr = reverseGeocode w (lat conditionLocation) (lng conditionLocation);
          currentHour = getHours w;
          (level, spd, why, k') =
            (if 7 \<le> currentHour \<and> currentHour \<le> 9 then
               (if random w (k + 1) > 0.5 then High else Moderate,
                Math_floor (random w (k + 2) * 20) + 15,
                ''Morning rush hour traffic'', k + 3)
             else if 17 \<le> currentHour \<and> currentHour \<le> 19 then
               (if random w (k + 1) > 0.3 then High else Severe,
                Math_floor (random w (k + 2) * 15) + 10,
                ''Evening rush hour congestion'', k + 3)
             else if 22 \<le> currentHour \<or> currentHour \<le> 5 then
               (Low,
                Math_floor (random w (k + 1) * 20) + 45,
                ''Light traffic'', k + 2)
             else
               (if random w (k + 1) > 0.7 then Moderate else Low,
                Math_floor (random w (k + 2) * 25) + 30,
                ''Normal traffic flow'', k + 3));
          dur = Math_floor (random w k' * 20) + 10
      in (\<lparr>tc_id = ''simulation-'' @ show_nat (now w) @ ''-'' @ show_nat i,
           location =
             \<lparr>lat = lat conditionLocation, lng = lng conditionLocation,
              address =
                (case addr of
                   Some a \<Rightarrow>
                     if a \<noteq> [] then a
                     else ''Near '' @ cityName @ '' ('' @ toFixed4 w (lat conditionLocation)
                            @ '', '' @ toFixed4 w (lng conditionLocation) @ '')''
                 | None \<Rightarrow>
                     ''Near '' @ cityName @ '' ('' @ toFixed4 w (lat conditionLocation)
                       @ '', '' @ toFixed4 w (lng conditionLocation) @ '')'')\<rparr>,
           severity = level,
           speed = spd,
           tc_duration = dur,
           tc_confidence = 70,
           timestamp = Some (int (now w)),
           predictedDuration = dur + Math_floor (random w (k' + 1) * 5),
           affectedRoutes = [''Routes near '' @ cityName, ''Local roads''],
           cause = Some why,
           tc_description =
             Some (warning_sign @ '' Simulated: '' @ severity_capitalized level
                     @ '' conditions near '' @ cityName @ '' - '' @ why)\<rparr>,
          k' + 2))"

fun simulationLoop ::
  "World \<Rightarrow> LatLng \<Rightarrow> string \<Rightarrow> int \<Rightarrow> nat list \<Rightarrow> nat \<Rightarrow> TrafficCondition list" where
  "simulationLoop w loc cityName numConditions [] k = []"
| "simulationLoop w loc cityName numConditions (i # rest) k =
     (let (condition, k') = simulatedCondition w loc cityName numConditions i k
      in condition # simulationLoop w loc cityName numConditions rest k')"

text \<open>
  \<^verbatim>\<open>generateLocationAwareSimulation\<close>. Nothing in its \<^verbatim>\<open>try\<close> throws: the geocoding
  helper catches its own failures. \<^verbatim>\<open>split(',')[0]\<close> is the first piece, and a split
  always has one.
\<close>

definition generateLocationAwareSimulation :: "World \<Rightarrow> LatLng \<Rightarrow> TrafficCondition list" where
  "generateLocationAwareSimulation w loc =
     (let mainLocationName = reverseGeocode w (lat loc) (lng loc);
          cityName =
            (case mainLocationName of
               None \<Rightarrow> ''Your Area''
             | Some n \<Rightarrow>
                 if n = [] then ''Your Area''
                 else (case split n '','' of piece # _ \<Rightarrow> piece | [] \<Rightarrow> []));
          numConditions = \<lfloor>random w 0 * 3\<rfloor> + 2
      in simulationLoop w loc cityName numConditions [0..<nat numConditions] 1)"

section \<open>Current conditions\<close>

text \<open>
  \<^verbatim>\<open>fetchRealTrafficData\<close>: no places, no conditions; otherwise what the directions
  requests to the places give. Every failure inside it ends in the empty list.
\<close>

definition fetchRealTrafficData :: "World \<Rightarrow> LatLng \<Rightarrow> real \<Rightarrow> TrafficCondition list" where
  "fetchRealTrafficData w center radius =
     (let places = findNearbyPlaces (math w) center radius (searches w) in
      if places = [] then [] else probe w places)"

text \<open>
  \<^verbatim>\<open>getCurrentTrafficConditions\<close>. A rejected load is caught by the outer \<^verbatim>\<open>catch\<close>, which
  returns the empty list. Writing the fetched conditions to the cache is not awaited and
  does not change the value returned.
\<close>

definition getCurrentTrafficConditions :: "World \<Rightarrow> LatLng \<Rightarrow> real \<Rightarrow> TrafficCondition list" where
  "getCurrentTrafficConditions w loc radius =
     (case sdk_load w of
        Some e \<Rightarrow> []
      | None \<Rightarrow>
          if \<not> google_maps w then []
          else
            (case cachedConditions (int (now w))
                    (SupabaseService_getTrafficConditions (math w) (supabase_configured w)
                       (cache_query w) loc radius) of
               Some recentRealConditions \<Rightarrow> recentRealConditions
             | None \<Rightarrow>
                 (let realConditions = fetchRealTrafficData w loc radius in
                  if realConditions \<noteq> [] then realConditions
                  else generateLocationAwareSimulation w loc)))"

section \<open>The forecast\<close>

record HourPrediction =
  time :: string
  congestionLevel :: real
  confidence :: real

record Factors =
  weather :: real
  events :: real
  historical :: real
  realTime :: real

record TrafficPrediction =
  tp_timestamp :: "int option"
  predictions :: "HourPrediction list"
  accuracy :: real
  factors :: Factors

fun severityValue :: "Severity \<Rightarrow> real" where
  "severityValue Low = 25"
| "severityValue Moderate = 50"
| "severityValue High = 75"
| "severityValue Severe = 90"

definition calculateCurrentCongestionLevel :: "TrafficCondition list \<Rightarrow> real" where
  "calculateCurrentCongestionLevel conditions =
     (if length conditions = 0 then 20
      else
        let avgSeverity =
              ddiv
                (foldl (\<lambda>sum condition. dadd sum (severityValue (severity condition))) 0
                   conditions)
                (real (length conditions))
        in Math_round avgSeverity)"

text \<open>The table of the source; each literal is the double nearest to it.\<close>

definition trafficPatterns :: "(nat \<times> real) list" where
  "trafficPatterns =
     [(0, fl 0.2), (1, fl 0.15), (2, fl 0.1), (3, fl 0.1), (4, fl 0.15), (5, fl 0.3),
      (6, fl 0.6), (7, fl 0.9), (8, fl 1.2), (9, fl 0.8), (10, fl 0.6), (11, fl 0.7),
      (12, fl 0.8), (13, fl 0.7), (14, fl 0.6), (15, fl 0.7), (16, fl 0.9), (17, fl 1.3),
      (18, fl 1.1), (19, fl 0.8), (20, fl 0.6), (21, fl 0.5), (22, fl 0.4), (23, fl 0.3)]"

text \<open>\<^verbatim>\<open>trafficPatterns[hour] || 0.5\<close>: the default for a missing key, and for a zero.\<close>

definition getHourlyTrafficFactor :: "nat \<Rightarrow> real" where
  "getHourlyTrafficFactor hour =
     (case map_of trafficPatterns hour of
        None \<Rightarrow> 0.5
      | Some f \<Rightarrow> if f = 0 then 0.5 else f)"

definition formatHour :: "nat \<Rightarrow> string" where
  "formatHour hour =
     (let period = (if hour \<ge> 12 then ''PM'' else ''AM'');
          displayHour = (if hour = 0 then 12 else if hour > 12 then hour - 12 else hour)
      in show_nat displayHour @ '' '' @ period)"

text \<open>\<^verbatim>\<open>generateRealTimePredictions\<close>; the loop runs \<open>i\<close> from 0 to 11.\<close>

definition generateRealTimePredictions :: "World \<Rightarrow> TrafficCondition list \<Rightarrow> TrafficPrediction" where
  "generateRealTimePredictions w currentConditions =
     (let currentHour = getHours w in
      \<lparr>tp_timestamp = Some (int (now w)),
       predictions =
         map (\<lambda>i.
                let hour = (currentHour + i) mod 24;
                    timeString = formatHour hour;
                    baseCongestion = calculateCurrentCongestionLevel currentConditions;
                    hourlyFactor = getHourlyTrafficFactor hour;
                    level = Math_round (dmul baseCongestion hourlyFactor)
                in \<lparr>time = timeString,
                    congestionLevel = min 100 (max 0 level),
                    confidence = max 60 (dsub 95 (dmul (real i) 3))\<rparr>)
             [0..<12],
       accuracy = dadd 85 (dmul (accuracy_draw w) 10),
       factors = \<lparr>weather = 15, events = 10, historical = 25, realTime = 50\<rparr>\<rparr>)"

text \<open>
  \<^verbatim>\<open>getTrafficPredictions\<close>. Neither call in its \<^verbatim>\<open>try\<close> throws, so the empty forecast of
  its \<^verbatim>\<open>catch\<close> is never returned.
\<close>

definition getTrafficPredictions :: "World \<Rightarrow> LatLng \<Rightarrow> TrafficPrediction" where
  "getTrafficPredictions w loc =
     generateRealTimePredictions w (getCurrentTrafficConditions w loc 5)"

section \<open>Sample worlds\<close>

text \<open>
  The angle of the point \<open>(x, y)\<close>, which \<^verbatim>\<open>Math.atan2(y, x)\<close> approximates.
\<close>

definition atan2 :: "real \<Rightarrow> real \<Rightarrow> real" where
  "atan2 y x =
     (if 0 < x then arctan (y / x)
      else if x < 0 \<and> 0 \<le> y then arctan (y / x) + pi
      else if x < 0 then arctan (y / x) - pi
      else if 0 < y then pi / 2
      else if y < 0 then - (pi / 2)
      else 0)"

text \<open>
  A library for the examples: the double nearest to the exact value. Two values are
  written out, the ones every engine returns there: the sine of \<^verbatim>\<open>Math.PI / 2\<close> is 1, and
  the angle of a point on the positive \<open>y\<close> axis is \<^verbatim>\<open>Math.PI / 2\<close>.
\<close>

definition sample_math :: MathLib where
  "sample_math =
     \<lparr>Math_sin = (\<lambda>x. if x = Math_PI / 2 then 1 else fl (sin x)),
      Math_cos = (\<lambda>x. fl (cos x)),
      Math_atan2 = (\<lambda>y x. if 0 < y \<and> x = 0 then Math_PI / 2 else fl (atan2 y x))\<rparr>"

text \<open>A cached row at the origin, with the given identifier and time stamp.\<close>

definition sample_row :: "string \<Rightarrow> int \<Rightarrow> TrafficRecord" where
  "sample_row i t =
     \<lparr>tr_id = Some i, location_lat = 0, location_lng = 0, location_address = ''Main St'',
      tr_severity = High, tr_speed = 20, tr_duration = 12, tr_confidence = 95,
      tr_timestamp = Some t, predicted_duration = 13, affected_routes = [''I-5''],
      tr_cause = None, tr_description = None, tr_user_id = None\<rparr>"

text \<open>
  A world at clock 1000000 ms and the given hour, whose cache holds the given rows, whose
  place searches find nothing, and whose draws are all \<open>1/2\<close>.
\<close>

definition sample_world :: "TrafficRecord list \<Rightarrow> nat \<Rightarrow> World" where
  "sample_world rows h =
     \<lparr>math = sample_math,
      sdk_load = None, google_maps = True, now = 1000000, getHours = h,
      random = (\<lambda>k. 1 / 2), accuracy_draw = 1 / 2,
      reverseGeocode = (\<lambda>x y. None), toFixed4 = (\<lambda>x. ''0.0000''),
      supabase_configured = True, cache_query = Inr (Some rows),
      searches = [], probe = (\<lambda>places. [])\<rparr>"

definition origin_point :: LatLng where
  "origin_point = \<lparr>lat = 0, lng = 0\<rparr>"

section \<open>The forecast, as the specification words it\<close>

text \<open>
  The base as the specification words it: the unweighted average of the levels'
  percentages, the sum divided by the count as doubles are, 20 for no conditions; and
  the congestion level of entry \<open>i\<close> computed from that base.
\<close>

definition averageSeverity :: "TrafficCondition list \<Rightarrow> real" where
  "averageSeverity conditions =
     (if conditions = [] then 20
      else ddiv (sum_list (map (\<lambda>c. severityValue (severity c)) conditions))
             (real (length conditions)))"

definition congestionFromAverage :: "TrafficCondition list \<Rightarrow> nat \<Rightarrow> nat \<Rightarrow> real" where
  "congestionFromAverage conditions hour i =
     min 100 (max 0 (Math_round
       (dmul (averageSeverity conditions) (getHourlyTrafficFactor ((hour + i) mod 24)))))"

text \<open>A real condition of the given level, 15 minutes long, seen at clock 1000000.\<close>

definition condition_of_level :: "Severity \<Rightarrow> TrafficCondition" where
  "condition_of_level s =
     \<lparr>tc_id = ''real-traffic-1000000-0'',
      location = \<lparr>lat = 0, lng = 0, address = ''Main St''\<rparr>,
      severity = s, speed = 30, tc_duration = 15, tc_confidence = 95,
      timestamp = Some 1000000, predictedDuration = 16, affectedRoutes = [''I-5''],
      cause = None, tc_description = None\<rparr>"

section \<open>The distance, as the specification words it\<close>


section \<open>A sample world with a far point\<close>




section \<open>The LLM insight service\<close>

text \<open>
  A value that \<^verbatim>\<open>JSON.parse\<close> can return. An object is the list of its properties, each
  name once. A property that is absent reads as \<^verbatim>\<open>undefined\<close>: \<open>None\<close>.
\<close>

datatype js_value =
    JNull
  | JBool bool
  | JNumber real
  | JString string
  | JArray "js_value list"
  | JObject "(string \<times> js_value) list"

text \<open>\<^verbatim>\<open>analysis.key\<close> on a value other than \<^verbatim>\<open>null\<close>: only an object has such properties.\<close>

fun property :: "js_value \<Rightarrow> string \<Rightarrow> js_value option" where
  "property (JObject props) key = map_of props key"
| "property _ key = None"

text \<open>Truthiness: \<^verbatim>\<open>undefined\<close>, \<^verbatim>\<open>null\<close>, \<^verbatim>\<open>false\<close>, \<open>0\<close> and the empty string are falsy.\<close>

fun truthy :: "js_value option \<Rightarrow> bool" where
  "truthy None = False"
| "truthy (Some JNull) = False"
| "truthy (Some (JBool b)) = b"
| "truthy (Some (JNumber x)) = (x \<noteq> 0)"
| "truthy (Some (JString s)) = (s \<noteq> [])"
| "truthy (Some (JArray xs)) = True"
| "truthy (Some (JObject props)) = True"

text \<open>\<^verbatim>\<open>v || d\<close>.\<close>

definition or_else :: "js_value option \<Rightarrow> js_value \<Rightarrow> js_value" where
  "or_else v d = (case v of Some x \<Rightarrow> if truthy v then x else d | None \<Rightarrow> d)"

text \<open>
  The conversion of an object to a primitive calls its \<^verbatim>\<open>toString\<close>. A parsed object that
  has a property of that name has a value there and no function, and the conversion
  throws; an array converts its elements in turn, so it throws when one of them does.
\<close>

fun conversion_throws :: "js_value \<Rightarrow> bool" where
  "conversion_throws (JObject props) = (''toString'' \<in> fst ` set props)"
| "conversion_throws (JArray xs) = list_ex conversion_throws xs"
| "conversion_throws _ = False"

text \<open>
  The number \<^verbatim>\<open>Math.max\<close> and \<^verbatim>\<open>Math.min\<close> make of an argument, \<open>None\<close> for \<^verbatim>\<open>NaN\<close>. A
  plain object converts through its text \<^verbatim>\<open>[object Object]\<close>, so to \<^verbatim>\<open>NaN\<close>. A string and
  an array convert through their text by the rules of numeric literals, which are left
  to the parameter \<open>text_number\<close>.
\<close>

fun ToNumber :: "(js_value \<Rightarrow> real option) \<Rightarrow> js_value \<Rightarrow> js_error + real option" where
  "ToNumber text_number JNull = Inr (Some 0)"
| "ToNumber text_number (JBool b) = Inr (Some (if b then 1 else 0))"
| "ToNumber text_number (JNumber x) = Inr (Some x)"
| "ToNumber text_number (JString s) = Inr (text_number (JString s))"
| "ToNumber text_number (JArray xs) =
     (if conversion_throws (JArray xs) then Inl TypeError else Inr (text_number (JArray xs)))"
| "ToNumber text_number (JObject props) =
     (if conversion_throws (JObject props) then Inl TypeError else Inr None)"

text \<open>\<^verbatim>\<open>Math.max\<close> and \<^verbatim>\<open>Math.min\<close> of two numbers; \<^verbatim>\<open>NaN\<close> in, \<^verbatim>\<open>NaN\<close> out.\<close>

definition Math_max :: "real option \<Rightarrow> real option \<Rightarrow> real option" where
  "Math_max a b = (case a of None \<Rightarrow> None | Some x \<Rightarrow> map_option (max x) b)"

definition Math_min :: "real option \<Rightarrow> real option \<Rightarrow> real option" where
  "Math_min a b = (case a of None \<Rightarrow> None | Some x \<Rightarrow> map_option (min x) b)"

text \<open>
  \<^verbatim>\<open>AITrafficInsight\<close> as the function fills it: the properties passed through keep
  whatever value the model's answer had.
\<close>

record AITrafficInsight =
  ai_severity :: js_value
  ai_confidence :: "real option"
  ai_summary :: js_value
  recommendations :: "js_value list"
  predictedCongestion :: "real option"
  bestTimeToTravel :: js_value
  alternativeRoutesSuggestion :: js_value
  estimatedDelay :: "real option"

text \<open>
  \<^verbatim>\<open>validateAndFormatResponse\<close>. Reading a property of \<^verbatim>\<open>null\<close> throws, and so does a
  conversion that throws; the caller's \<^verbatim>\<open>catch\<close> then substitutes the fallback. The three
  conversions are made in the order of the properties of the literal.
\<close>

definition validateAndFormatResponse ::
  "(js_value \<Rightarrow> real option) \<Rightarrow> js_value \<Rightarrow> js_error + AITrafficInsight" where
  "validateAndFormatResponse text_number analysis =
     (if analysis = JNull then Inl TypeError
      else
        (case ToNumber text_number (or_else (property analysis ''confidence'') (JNumber 0.7)) of
           Inl e \<Rightarrow> Inl e
         | Inr conf \<Rightarrow>
        (case ToNumber text_number
                (or_else (property analysis ''predictedCongestion'') (JNumber 50)) of
           Inl e \<Rightarrow> Inl e
         | Inr congestion \<Rightarrow>
        (case ToNumber text_number (or_else (property analysis ''estimatedDelay'') (JNumber 0)) of
           Inl e \<Rightarrow> Inl e
         | Inr delay \<Rightarrow>
             Inr
               \<lparr>ai_severity = or_else (property analysis ''severity'') (JString ''moderate''),
                ai_confidence = Math_min (Math_max conf (Some 0)) (Some 1),
                ai_summary =
                  or_else (property analysis ''summary'') (JString ''Traffic analysis completed''),
                recommendations =
                  (case property analysis ''recommendations'' of
                     Some (JArray xs) \<Rightarrow> xs
                   | _ \<Rightarrow> [JString ''Check traffic before traveling'']),
                predictedCongestion = Math_min (Math_max congestion (Some 0)) (Some 100),
                bestTimeToTravel =
                  or_else (property analysis ''bestTimeToTravel'') (JString ''Now''),
                alternativeRoutesSuggestion =
                  or_else (property analysis ''alternativeRoutesSuggestion'')
                    (JString ''Consider alternative routes''),
                estimatedDelay = Math_min (Math_max delay (Some 0)) (Some 60)\<rparr>))))"

text \<open>\<^verbatim>\<open>getFallbackAnalysis\<close>.\<close>

definition getFallbackAnalysis :: AITrafficInsight where
  "getFallbackAnalysis =
     \<lparr>ai_severity = JString ''moderate'',
      ai_confidence = Some 0.6,
      ai_summary = JString ''Traffic analysis temporarily unavailable. Using basic traffic data.'',
      recommendations =
        [JString ''Check current traffic conditions'', JString ''Allow extra travel time''],
      predictedCongestion = Some 45,
      bestTimeToTravel = JString ''Now'',
      alternativeRoutesSuggestion = JString ''Consider checking alternative routes'',
      estimatedDelay = Some 5\<rparr>"

text \<open>A number between two bounds; \<^verbatim>\<open>NaN\<close> is between none.\<close>

definition between :: "real \<Rightarrow> real \<Rightarrow> real option \<Rightarrow> bool" where
  "between lo hi v = (case v of None \<Rightarrow> False | Some x \<Rightarrow> lo \<le> x \<and> x \<le> hi)"


section \<open>Theorems\<close>

subsection \<open>Severity classification\<close>




subsection \<open>Rounding and the savings pass\<close>

lemma Math_round_of_int: "Math_round (of_int k) = of_int k"
  unfolding Math_round_def by (simp add: floor_unique)

lemma Math_round_Ints: "x \<in> \<int> \<Longrightarrow> Math_round x = x"
  by (auto simp: Ints_def Math_round_of_int)

lemma Math_round_in_Ints: "Math_round x \<in> \<int>"
  by (simp add: Math_round_def)

lemma enumerate_fst_ge: "p \<in> set (enumerate n xs) \<Longrightarrow> n \<le> fst p"
  by (induction xs arbitrary: n) (auto dest: Suc_leD)

lemma filter_enumerate_all:
  "k < n \<Longrightarrow> filter (\<lambda>(j, _). j \<noteq> k) (enumerate n xs) = enumerate n xs"
  by (rule filter_True) (auto dest: enumerate_fst_ge)

lemma others_by_index:
  "map snd (filter (\<lambda>(j, _). j \<noteq> n + i) (enumerate n xs)) = take i xs @ drop (Suc i) xs"
proof (induction xs arbitrary: n i)
  case Nil
  then show ?case by simp
next
  case (Cons x xs)
  show ?case
  proof (cases i)
    case 0
    then show ?thesis by (simp add: filter_enumerate_all)
  next
    case (Suc j)
    with Cons.IH [of "Suc n" j] show ?thesis by simp
  qed
qed

lemma fastest_is_min:
  "durationWithTraffic
     (foldl (\<lambda>fastest route.
               if durationWithTraffic route < durationWithTraffic fastest then route else fastest)
            x xs)
   = fold min (map durationWithTraffic xs) (durationWithTraffic x)"
  by (induction xs arbitrary: x) (auto simp: min_def)

lemma calculateSavings_in_range:
  assumes "i < length rs"
  shows "calculateSavings rs i =
           Inr (if 1 < length rs \<and> 0 < fastestOtherGap rs i
                then Some (Math_round (fastestOtherGap rs i)) else None)"
proof (cases "length rs \<le> 1")
  case True
  then show ?thesis by (simp add: calculateSavings_def)
next
  case False
  have eq: "map snd (filter (\<lambda>(j, _). j \<noteq> i) (enumerate 0 rs)) = otherRoutes rs i"
    using others_by_index [of 0 i rs] by (simp add: otherRoutes_def)
  from False assms have "length (otherRoutes rs i) > 0"
    by (simp add: otherRoutes_def)
  then obtain y ys where ys: "otherRoutes rs i = y # ys"
    by (cases "otherRoutes rs i") auto
  have "Min (set (map durationWithTraffic (y # ys)))
        = fold min (map durationWithTraffic ys) (durationWithTraffic y)"
    using Min.set_eq_fold [of "durationWithTraffic y" "map durationWithTraffic ys"] by simp
  with False assms eq ys show ?thesis
    by (simp add: calculateSavings_def fastestOtherGap_def fastest_is_min Let_def)
qed

lemma gap_depends_on_durations:
  assumes "map durationWithTraffic rs' = map durationWithTraffic rs" and "j < length rs"
  shows "fastestOtherGap rs' j = fastestOtherGap rs j"
proof -
  have len: "length rs' = length rs"
    using assms(1) by (metis length_map)
  have "map durationWithTraffic (otherRoutes rs' j) = map durationWithTraffic (otherRoutes rs j)"
    using assms(1) by (simp add: otherRoutes_def take_map [symmetric] drop_map [symmetric])
  moreover have "durationWithTraffic (rs' ! j) = durationWithTraffic (rs ! j)"
    using assms len by (metis nth_map)
  ultimately show ?thesis
    by (simp add: fastestOtherGap_def)
qed

lemma savings_update_keeps_durations:
  "i < length rs \<Longrightarrow>
   map durationWithTraffic (rs[i := (rs ! i)\<lparr>savings := s\<rparr>]) = map durationWithTraffic rs"
  by (simp add: map_update list_update_same_conv)

lemma forEach_savings_result:
  assumes "set ixs \<subseteq> {..<length rs}" and "distinct ixs"
  shows "\<exists>rs'. forEach_savings ixs rs = Inr rs' \<and> length rs' = length rs \<and>
           (\<forall>j<length rs.
              rs' ! j =
                (if j \<in> set ixs \<and> isRecommended (rs ! j)
                 then (rs ! j)\<lparr>savings :=
                        (if 1 < length rs \<and> 0 < fastestOtherGap rs j
                         then Some (Math_round (fastestOtherGap rs j)) else None)\<rparr>
                 else rs ! j))"
  using assms
proof (induction ixs arbitrary: rs)
  case Nil
  then show ?case by simp
next
  case (Cons i ixs)
  then have i: "i < length rs" and rest: "set ixs \<subseteq> {..<length rs}"
    and fresh: "i \<notin> set ixs" and dist: "distinct ixs"
    by auto
  show ?case
  proof (cases "isRecommended (rs ! i)")
    case False
    with Cons.IH [OF rest dist] show ?thesis by auto
  next
    case True
    define s where "s = (if 1 < length rs \<and> 0 < fastestOtherGap rs i
                         then Some (Math_round (fastestOtherGap rs i)) else None)"
    define rs1 where "rs1 = rs[i := (rs ! i)\<lparr>savings := s\<rparr>]"
    have len1: "length rs1 = length rs" by (simp add: rs1_def)
    have dur1: "map durationWithTraffic rs1 = map durationWithTraffic rs"
      unfolding rs1_def using i by (rule savings_update_keeps_durations)
    have step: "forEach_savings (i # ixs) rs = forEach_savings ixs rs1"
      using True i by (simp add: calculateSavings_in_range s_def rs1_def)
    from rest len1 have rest1: "set ixs \<subseteq> {..<length rs1}" by simp
    from Cons.IH [OF rest1 dist] obtain rs' where
      run: "forEach_savings ixs rs1 = Inr rs'" and len': "length rs' = length rs1" and
      each: "\<forall>j<length rs1.
              rs' ! j =
                (if j \<in> set ixs \<and> isRecommended (rs1 ! j)
                 then (rs1 ! j)\<lparr>savings :=
                        (if 1 < length rs1 \<and> 0 < fastestOtherGap rs1 j
                         then Some (Math_round (fastestOtherGap rs1 j)) else None)\<rparr>
                 else rs1 ! j)"
      by blast
    have "rs' ! j =
            (if j \<in> set (i # ixs) \<and> isRecommended (rs ! j)
             then (rs ! j)\<lparr>savings :=
                    (if 1 < length rs \<and> 0 < fastestOtherGap rs j
                     then Some (Math_round (fastestOtherGap rs j)) else None)\<rparr>
             else rs ! j)" if j: "j < length rs" for j
    proof (cases "j = i")
      case True
      with each j len1 fresh have "rs' ! j = rs1 ! i" by simp
      with True \<open>isRecommended (rs ! i)\<close> i show ?thesis
        by (simp add: rs1_def s_def)
    next
      case False
      then have same: "rs1 ! j = rs ! j" by (simp add: rs1_def)
      have gap: "fastestOtherGap rs1 j = fastestOtherGap rs j"
        using dur1 j by (rule gap_depends_on_durations)
      from each j len1 False same gap show ?thesis by simp
    qed
    with step run len' len1 show ?thesis by simp
  qed
qed

lemma convertRoute_Inr:
  assumes "convertRoute i g = Inr r"
  shows "isRecommended r = (i = 0 \<and> trafficLevel r \<noteq> Severe)"
    and "savings r = None"
    and "durationWithTraffic r \<in> \<int>"
    and "trafficLevel r = calculateTrafficLevel (trafficDelay r) (duration r)"
  using assms
  by (auto simp: convertRoute_def Let_def Math_round_in_Ints split: list.splits option.splits)

lemma map_routes_Inr:
  assumes "map_routes (enumerate n gs) = Inr rs"
  shows "length rs = length gs \<and> (\<forall>i<length gs. convertRoute (n + i) (gs ! i) = Inr (rs ! i))"
  using assms
proof (induction gs arbitrary: n rs)
  case Nil
  then show ?case by simp
next
  case (Cons g gs)
  from Cons.prems obtain r rs1 where
    r: "convertRoute n g = Inr r" and rs1: "map_routes (enumerate (Suc n) gs) = Inr rs1"
    and rs: "rs = r # rs1"
    by (auto split: sum.splits)
  from Cons.IH [OF rs1] have len: "length rs1 = length gs"
    and each: "\<forall>i<length gs. convertRoute (Suc n + i) (gs ! i) = Inr (rs1 ! i)"
    by auto
  have "convertRoute (n + i) ((g # gs) ! i) = Inr (rs ! i)" if "i < length (g # gs)" for i
    using that r each rs by (cases i) auto
  with len rs show ?case by simp
qed

lemma scoreRoutes_Inr:
  assumes "scoreRoutes gs = Inr rs" and "i < length rs"
  shows "isRecommended (rs ! i) = (i = 0 \<and> trafficLevel (rs ! i) \<noteq> Severe)"
    and "trafficLevel (rs ! i) = calculateTrafficLevel (trafficDelay (rs ! i)) (duration (rs ! i))"
    and "savings (rs ! i) = expectedSavings rs i"
proof -
  from assms(1) obtain rs0 where
    conv: "map_routes (enumerate 0 gs) = Inr rs0" and
    pass: "forEach_savings [0..<length rs0] rs0 = Inr rs"
    by (auto simp: scoreRoutes_def split: sum.splits)
  from map_routes_Inr [OF conv] have len0: "length rs0 = length gs"
    and each0: "\<forall>j<length gs. convertRoute j (gs ! j) = Inr (rs0 ! j)"
    by auto
  have "set [0..<length rs0] \<subseteq> {..<length rs0}" and "distinct [0..<length rs0]"
    by auto
  from forEach_savings_result [OF this] pass have len: "length rs = length rs0"
    and each: "\<forall>j<length rs0.
              rs ! j =
                (if isRecommended (rs0 ! j)
                 then (rs0 ! j)\<lparr>savings :=
                        (if 1 < length rs0 \<and> 0 < fastestOtherGap rs0 j
                         then Some (Math_round (fastestOtherGap rs0 j)) else None)\<rparr>
                 else rs0 ! j)"
    by auto
  from assms(2) len len0 have i0: "i < length rs0" and ig: "i < length gs" by auto
  from each0 ig have c: "convertRoute i (gs ! i) = Inr (rs0 ! i)" by simp
  have durs: "map durationWithTraffic rs = map durationWithTraffic rs0"
    by (rule nth_equalityI) (use len each in auto)
  have gap: "fastestOtherGap rs i = fastestOtherGap rs0 i"
    using durs i0 by (rule gap_depends_on_durations)
  have ints: "\<forall>r \<in> set rs0. durationWithTraffic r \<in> \<int>"
    using each0 len0 convertRoute_Inr(3) by (metis in_set_conv_nth)
  have kept: "isRecommended (rs ! i) = isRecommended (rs0 ! i)"
    "trafficLevel (rs ! i) = trafficLevel (rs0 ! i)"
    "trafficDelay (rs ! i) = trafficDelay (rs0 ! i)"
    "duration (rs ! i) = duration (rs0 ! i)"
    using each i0 by simp_all
  show "isRecommended (rs ! i) = (i = 0 \<and> trafficLevel (rs ! i) \<noteq> Severe)"
    unfolding kept by (rule convertRoute_Inr(1) [OF c])
  show "trafficLevel (rs ! i) = calculateTrafficLevel (trafficDelay (rs ! i)) (duration (rs ! i))"
    unfolding kept by (rule convertRoute_Inr(4) [OF c])
  have gap_int: "fastestOtherGap rs0 i \<in> \<int>" if "1 < length rs0"
  proof -
    let ?ds = "set (map durationWithTraffic (otherRoutes rs0 i))"
    from that i0 have "otherRoutes rs0 i \<noteq> []"
      by (auto simp: otherRoutes_def)
    then have "Min ?ds \<in> ?ds"
      by (intro Min_in) auto
    moreover have "set (otherRoutes rs0 i) \<subseteq> set rs0"
      by (auto simp: otherRoutes_def dest: in_set_takeD in_set_dropD)
    ultimately have "Min ?ds \<in> \<int>"
      using ints by auto
    moreover have "durationWithTraffic (rs0 ! i) \<in> \<int>"
      using ints i0 by simp
    ultimately show ?thesis
      by (simp add: fastestOtherGap_def)
  qed
  show "savings (rs ! i) = expectedSavings rs i"
  proof (cases "isRecommended (rs0 ! i)")
    case False
    with each i0 convertRoute_Inr(2) [OF c] show ?thesis
      by (simp add: expectedSavings_def)
  next
    case True
    with each i0 gap gap_int len show ?thesis
      by (auto simp: expectedSavings_def Math_round_Ints)
  qed
qed

lemma calculateRoutes_routes:
  "routes (calculateRoutes request places directions) = [] \<or>
   (\<exists>gs. scoreRoutes gs = Inr (routes (calculateRoutes request places directions)))"
  by (auto simp: calculateRoutes_def calculateRoutesWithJSSDK_def
           split: sum.splits list.splits)

lemma only_first_satisfies:
  assumes "\<forall>i<length xs. P (xs ! i) \<longrightarrow> i = 0"
  shows "length (filter P xs) \<le> 1"
proof (cases xs)
  case Nil
  then show ?thesis by simp
next
  case (Cons x ys)
  have "\<not> P y" if "y \<in> set ys" for y
  proof -
    from that obtain k where "k < length ys" and "ys ! k = y"
      by (auto simp: in_set_conv_nth)
    with assms Cons have "P y \<longrightarrow> Suc k = 0"
      by (metis length_Cons nth_Cons_Suc Suc_less_eq)
    then show ?thesis by simp
  qed
  then have "filter P ys = []" by (simp add: filter_empty_conv)
  with Cons show ?thesis by simp
qed


subsection \<open>Route comparison\<close>

text \<open>
  C5. In every response of \<^verbatim>\<open>calculateRoutes\<close> the route at index 0 is recommended iff
  its own level is not severe, where its level is the classification of its own delay
  and duration, and no route at a later index is recommended; so at most one route of
  a batch is recommended, and none when the first is severe.
\<close>

theorem first_alternative_recommended_unless_severe:
  assumes "rs = routes (calculateRoutes request places directions)"
  shows "(\<forall>i<length rs.
            (isRecommended (rs ! i) \<longleftrightarrow> i = 0 \<and> trafficLevel (rs ! i) \<noteq> Severe)
            \<and> trafficLevel (rs ! i) = calculateTrafficLevel (trafficDelay (rs ! i)) (duration (rs ! i)))
       \<and> length (filter isRecommended rs) \<le> 1
       \<and> (rs \<noteq> [] \<and> trafficLevel (rs ! 0) = Severe \<longrightarrow> filter isRecommended rs = [])"
proof -
  have each: "(isRecommended (rs ! i) \<longleftrightarrow> i = 0 \<and> trafficLevel (rs ! i) \<noteq> Severe)
       \<and> trafficLevel (rs ! i) = calculateTrafficLevel (trafficDelay (rs ! i)) (duration (rs ! i))"
    if "i < length rs" for i
    using calculateRoutes_routes [of request places directions] that assms
      scoreRoutes_Inr(1,2) by auto
  then have one: "length (filter isRecommended rs) \<le> 1"
    by (intro only_first_satisfies) auto
  have "filter isRecommended rs = []" if "rs \<noteq> []" "trafficLevel (rs ! 0) = Severe"
  proof -
    have "\<not> isRecommended (rs ! i)" if "i < length rs" for i
      using each [OF that] \<open>trafficLevel (rs ! 0) = Severe\<close> by auto
    then show ?thesis
      by (auto simp: filter_empty_conv in_set_conv_nth)
  qed
  with each one show ?thesis by blast
qed

theorem first_alternative_recommended_unless_severe_witness:
  "map isRecommended (routes (sample_batch [1800, 1500, 2400])) = [True, False, False]
   \<and> map trafficLevel (routes (sample_batch [1800, 1500, 2400])) = [Moderate, Low, Severe]
   \<and> map isRecommended (routes (sample_batch [3000, 1500])) = [False, False]
   \<and> map trafficLevel (routes (sample_batch [3000, 1500])) = [Severe, Low]
   \<and> length (filter isRecommended (routes (sample_batch [1800, 1500, 2400]))) \<le> 1
   \<and> filter isRecommended (routes (sample_batch [3000, 1500])) = []"
proof -
  let ?a = "routes (sample_batch [1800, 1500, 2400])"
  let ?b = "routes (sample_batch [3000, 1500])"
  have a: "map isRecommended ?a = [True, False, False]"
    "map trafficLevel ?a = [Moderate, Low, Severe]"
    by code_simp+
  have b: "map trafficLevel ?b = [Severe, Low]" "map isRecommended ?b = [False, False]"
    by code_simp+
  from b(1) have sev: "?b \<noteq> [] \<and> trafficLevel (?b ! 0) = Severe"
    by (cases ?b) auto
  have "length (filter isRecommended ?a) \<le> 1"
    using first_alternative_recommended_unless_severe [of ?a] by (simp add: sample_batch_def)
  moreover have "filter isRecommended ?b = []"
    using first_alternative_recommended_unless_severe [of ?b] sev by (simp add: sample_batch_def)
  ultimately show ?thesis
    using a b by simp
qed

text \<open>
  C3. In every response of \<^verbatim>\<open>calculateRoutes\<close> the savings of a route are the savings
  the specification words: on a recommended route of a batch of two or more, the least
  duration with traffic among the other routes minus its own, when that is positive;
  undefined otherwise, so on every route that is not recommended and on a batch of one.
\<close>

theorem savings_relative_to_fastest_other:
  assumes "rs = routes (calculateRoutes request places directions)" and "i < length rs"
  shows "savings (rs ! i) = expectedSavings rs i
       \<and> (\<not> isRecommended (rs ! i) \<longrightarrow> savings (rs ! i) = None)
       \<and> (length rs = 1 \<longrightarrow> savings (rs ! i) = None)"
proof -
  have "savings (rs ! i) = expectedSavings rs i"
    using calculateRoutes_routes [of request places directions] assms scoreRoutes_Inr(3)
    by auto
  then show ?thesis
    by (simp add: expectedSavings_def)
qed

theorem savings_relative_to_fastest_other_witness:
  "map durationWithTraffic (routes (sample_batch [1800, 1500, 2400])) = [30, 25, 40]
   \<and> isRecommended (routes (sample_batch [1800, 1500, 2400]) ! 0)
   \<and> fastestOtherGap (routes (sample_batch [1800, 1500, 2400])) 0 = - 5
   \<and> map savings (routes (sample_batch [1800, 1500, 2400])) = [None, None, None]
   \<and> map savings (routes (sample_batch [1500, 1800, 2400])) = [Some 5, None, None]
   \<and> map savings (routes (sample_batch [1500])) = [None]"
proof -
  let ?a = "routes (sample_batch [1800, 1500, 2400])"
  have len: "0 < length ?a"
    by code_simp
  have gap: "fastestOtherGap ?a 0 = - 5" and rec: "isRecommended (?a ! 0)"
    by code_simp+
  have "savings (?a ! 0) = expectedSavings ?a 0"
    using savings_relative_to_fastest_other [OF _ len] by (simp add: sample_batch_def)
  with gap have first: "savings (?a ! 0) = None"
    by (simp add: expectedSavings_def)
  have rest: "map durationWithTraffic ?a = [30, 25, 40]"
    "map savings (tl ?a) = [None, None]"
    "map savings (routes (sample_batch [1500, 1800, 2400])) = [Some 5, None, None]"
    "map savings (routes (sample_batch [1500])) = [None]"
    by code_simp+
  from rest(1) obtain x xs where a: "?a = x # xs"
    by (cases ?a) auto
  with first rest(2) have "map savings ?a = [None, None, None]"
    by simp
  with gap rec rest show ?thesis
    by simp
qed


subsection \<open>Provider failures\<close>

text \<open>
  A status other than \<^verbatim>\<open>OK\<close> never reaches \<^verbatim>\<open>getDirectionsErrorMessage\<close>: the mapping
  client rejects, and the response carries the message of the \<^verbatim>\<open>catch\<close> around the call,
  which is no entry of the table.
\<close>

lemma catch_message_not_in_table:
  "getDirectionsErrorMessage st \<noteq>
     ''Unable to calculate routes. Please try again or check if the destination is reachable by car.''"
  by (simp add: getDirectionsErrorMessage_def)

lemma non_ok_status_response:
  assumes "st \<noteq> ''OK''"
  shows "calculateRoutes request (Inr (place # places))
           (calculateDirections load window_google directions_service st result)
         = \<lparr>routes = [], status = error,
            message = Some ''Unable to calculate routes. Please try again or check if the destination is reachable by car.''\<rparr>"
  using assms
  by (simp add: calculateRoutes_def calculateRoutesWithJSSDK_def calculateDirections_def
           split: option.splits)

text \<open>
  C2. At the provider status \<^verbatim>\<open>ZERO_RESULTS\<close> the response of \<^verbatim>\<open>calculateRoutes\<close> has no
  routes and status \<^verbatim>\<open>error\<close>, and its message is the one of the \<^verbatim>\<open>catch\<close>, not the
  entry the status-to-message table holds for \<^verbatim>\<open>ZERO_RESULTS\<close>.
\<close>

theorem zero_results_message_bypasses_table:
  "calculateRoutes sample_request (Inr [sample_place])
     (calculateDirections None True True ''ZERO_RESULTS'' None)
   = \<lparr>routes = [], status = error,
      message = Some ''Unable to calculate routes. Please try again or check if the destination is reachable by car.''\<rparr>
   \<and> getDirectionsErrorMessage ''ZERO_RESULTS''
     = ''No route could be found between these locations. Try a different destination or travel mode.''"
  by (simp add: calculateRoutes_def calculateRoutesWithJSSDK_def calculateDirections_def
        getDirectionsErrorMessage_def)


subsection \<open>Saved routes\<close>

lemma as_trafficLevel_literal: "as_trafficLevel (severity_literal s) = Some s"
  by (cases s) (simp_all add: as_trafficLevel_def)

text \<open>
  C8. A route written as \<^verbatim>\<open>saveRoutesToDatabase\<close> writes it, stored, and read back as
  \<^verbatim>\<open>getSavedRoutes\<close> reads it, is a route with the same distance, duration, duration
  with traffic, traffic level and waypoints.
\<close>

theorem saved_route_round_trip:
  "\<exists>r'. savedRoute (storedRoute new_id created updated (routeRecord request dest place r))
            = Some r'
        \<and> distance r' = distance r
        \<and> duration r' = duration r
        \<and> durationWithTraffic r' = durationWithTraffic r
        \<and> trafficLevel r' = trafficLevel r
        \<and> waypoints r' = waypoints r"
  by (simp add: savedRoute_def storedRoute_def routeRecord_def as_trafficLevel_literal)

theorem saved_route_round_trip_witness:
  "map (map_option durationWithTraffic)
     (getSavedRoutes (Inr (map (storedRoute ''id'' ''t0'' ''t0'')
        (saveRoutesToDatabase sample_request (routes (sample_batch [1800, 1500])) ''Airport''
           (Some sample_place)))))
   = [Some 30, Some 25]
   \<and> (\<exists>r'. savedRoute (storedRoute ''id'' ''t0'' ''t0''
               (routeRecord sample_request ''Airport'' (Some sample_place)
                  (routes (sample_batch [1800, 1500]) ! 0))) = Some r'
          \<and> distance r' = 10 \<and> duration r' = 25 \<and> durationWithTraffic r' = 30
          \<and> trafficLevel r' = Moderate \<and> waypoints r' = Some [''I-5'', ''Main St''])"
proof -
  let ?r = "routes (sample_batch [1800, 1500]) ! 0"
  have vals: "distance ?r = 10" "duration ?r = 25" "durationWithTraffic ?r = 30"
    "trafficLevel ?r = Moderate" "waypoints ?r = Some [''I-5'', ''Main St'']"
    by code_simp+
  have all: "map (map_option durationWithTraffic)
     (getSavedRoutes (Inr (map (storedRoute ''id'' ''t0'' ''t0'')
        (saveRoutesToDatabase sample_request (routes (sample_batch [1800, 1500])) ''Airport''
           (Some sample_place)))))
   = [Some 30, Some 25]"
    by code_simp
  from saved_route_round_trip [of "''id''" "''t0''" "''t0''" sample_request "''Airport''"
      "Some sample_place" ?r] vals all
  show ?thesis by simp
qed


subsection \<open>Double arithmetic\<close>

lemma binade_eq:
  assumes "2 powi k \<le> \<bar>x\<bar>" and "\<bar>x\<bar> < 2 powi (k + 1)"
  shows "binade x = k"
proof -
  have "(0::real) < 2 powi k"
    by simp
  with assms(1) have pos: "0 < \<bar>x\<bar>"
    by linarith
  have "of_int k \<le> log 2 \<bar>x\<bar>"
    using assms(1) pos by (simp add: le_log_iff powr_real_of_int')
  moreover have "log 2 \<bar>x\<bar> < of_int (k + 1)"
    using assms(2) pos by (simp add: log_less_iff powr_real_of_int' del: of_int_add)
  ultimately show ?thesis
    unfolding binade_def by (intro floor_unique) simp_all
qed

lemma fl_eval:
  assumes "2 powi k \<le> \<bar>x\<bar>" and "\<bar>x\<bar> < 2 powi (k + 1)" and "- 1022 \<le> k"
  shows "fl x = 2 powi (k - 52) * of_int (round_even (x / 2 powi (k - 52)))"
proof -
  have "(0::real) < 2 powi k"
    by simp
  with assms(1) have "0 < \<bar>x\<bar>"
    by linarith
  then have "x \<noteq> 0"
    by simp
  moreover have "max (k - 52) (- 1074) = k - 52"
    using assms(3) by linarith
  then have "ulp x = 2 powi (k - 52)"
    unfolding ulp_def binade_eq [OF assms(1,2)] by (simp only:)
  ultimately show ?thesis
    by (simp add: fl_def)
qed

lemma round_even_of_int: "round_even (of_int j) = j"
  by (simp add: round_even_def)

text \<open>An integer below \<open>2 ^ 53\<close> in size is a double.\<close>

lemma fl_of_int:
  assumes "\<bar>k\<bar> < 2 ^ 53"
  shows "fl (of_int k) = of_int k"
proof (cases "k = 0")
  case True
  then show ?thesis by (simp add: fl_def)
next
  case False
  define e where "e = binade (of_int k)"
  from False have "1 \<le> \<bar>k\<bar>"
    by linarith
  then have "real_of_int 1 \<le> real_of_int \<bar>k\<bar>"
    by (simp only: of_int_le_iff)
  then have one: "1 \<le> \<bar>real_of_int k\<bar>"
    by simp
  then have "0 \<le> log 2 \<bar>real_of_int k\<bar>"
    by simp
  then have lo: "0 \<le> e"
    by (simp add: e_def binade_def)
  have "\<bar>real_of_int k\<bar> < 2 ^ 53"
    using assms by (metis of_int_abs of_int_less_numeral_power_cancel_iff)
  then have "log 2 \<bar>real_of_int k\<bar> < 53"
    using one by (simp add: log_less_iff powr_realpow [symmetric])
  then have "e < 53"
    by (simp add: e_def binade_def floor_less_iff)
  then have "e \<le> 52"
    by simp
  define n where "n = nat (52 - e)"
  have n: "e - 52 = - int n"
    using \<open>e \<le> 52\<close> by (simp add: n_def)
  have "max (e - 52) (- 1074) = - int n"
    using n lo by linarith
  then have "ulp (of_int k) = 2 powi (- int n)"
    unfolding ulp_def e_def [symmetric] by (simp only:)
  also have "\<dots> = 1 / 2 ^ n"
    by (simp add: power_int_minus field_simps)
  finally have u: "ulp (of_int k) = 1 / 2 ^ n" .
  have "real_of_int k / ulp (of_int k) = of_int (k * 2 ^ n)"
    by (simp add: u)
  then have "round_even (real_of_int k / ulp (of_int k)) = k * 2 ^ n"
    by (simp only: round_even_of_int)
  with False show ?thesis
    by (simp add: fl_def u)
qed

lemma fl_numeral [simp]:
  "fl 0 = 0" "fl 1 = 1" "fl 2 = 2" "fl 3 = 3" "fl 20 = 20" "fl 60 = 60" "fl 85 = 85" "fl 95 = 95"
  "fl 180 = 180" "fl 3959 = 3959" "fl 6371 = 6371"
  using fl_of_int [of 0] fl_of_int [of 1] fl_of_int [of 2] fl_of_int [of 3] fl_of_int [of 20]
    fl_of_int [of 60] fl_of_int [of 85] fl_of_int [of 95] fl_of_int [of 180]
    fl_of_int [of 3959] fl_of_int [of 6371]
  by simp_all

text \<open>The doubles that the literals of the hour table denote.\<close>

lemma table_literals:
  "fl (1 / 10) = 3602879701896397 / 36028797018963968"
  "fl (3 / 20) = 5404319552844595 / 36028797018963968"
  "fl (1 / 5) = 3602879701896397 / 18014398509481984"
  "fl (3 / 10) = 5404319552844595 / 18014398509481984"
  "fl (2 / 5) = 3602879701896397 / 9007199254740992"
  "fl (1 / 2) = 1 / 2"
  "fl (3 / 5) = 5404319552844595 / 9007199254740992"
  "fl (7 / 10) = 3152519739159347 / 4503599627370496"
  "fl (4 / 5) = 3602879701896397 / 4503599627370496"
  "fl (9 / 10) = 8106479329266893 / 9007199254740992"
  "fl (11 / 10) = 2476979795053773 / 2251799813685248"
  "fl (6 / 5) = 5404319552844595 / 4503599627370496"
  "fl (13 / 10) = 5854679515581645 / 4503599627370496"
  using fl_eval [of "- 4" "1 / 10"]
    fl_eval [of "- 3" "3 / 20"]
    fl_eval [of "- 3" "1 / 5"]
    fl_eval [of "- 2" "3 / 10"]
    fl_eval [of "- 2" "2 / 5"]
    fl_eval [of "- 1" "1 / 2"]
    fl_eval [of "- 1" "3 / 5"]
    fl_eval [of "- 1" "7 / 10"]
    fl_eval [of "- 1" "4 / 5"]
    fl_eval [of "- 1" "9 / 10"]
    fl_eval [of "0" "11 / 10"]
    fl_eval [of "0" "6 / 5"]
    fl_eval [of "0" "13 / 10"]
  by (simp_all add: round_even_def power_int_minus)

subsection \<open>Rounding error and sample distances\<close>





lemma sample_math_values:
  "Math_sin sample_math 0 = 0"
  "Math_sin sample_math (Math_PI / 2) = 1"
  "Math_cos sample_math 0 = 1"
  "Math_atan2 sample_math 0 1 = 0"
  "Math_atan2 sample_math 1 0 = Math_PI / 2"
  by (simp_all add: sample_math_def Math_PI_def atan2_def)

lemma sample_roots: "Math_sqrt 0 = Some 0" "Math_sqrt 1 = Some 1"
  by (simp_all add: Math_sqrt_def)

lemma sample_sums:
  "dsub 0 0 = 0" "dsub 180 0 = 180" "dsub 1 0 = 1" "dsub 1 1 = 0" "dmul 0 x = 0" "dmul x 0 = 0"
  "dmul 1 1 = 1" "dadd 0 0 = 0" "dadd 0 1 = 1" "ddiv 0 2 = 0" "ddiv 0 180 = 0"
  by (simp_all add: dsub_def dmul_def dadd_def ddiv_def)

text \<open>A point is at distance 0 from itself.\<close>

lemma sample_distance_here:
  "SupabaseService_calculateDistance sample_math 0 0 0 0 = Some 0"
  "TrafficService_calculateDistance sample_math 0 0 0 0 = Some 0"
  by (simp_all add: SupabaseService_calculateDistance_def TrafficService_calculateDistance_def
        toRadians_def Let_def sample_sums sample_math_values sample_roots)


subsection \<open>The cache of traffic conditions\<close>

lemma startsWith_simulation_not_real:
  "startsWith s ''simulation-'' \<Longrightarrow> \<not> startsWith s ''real-traffic-''"
  by (cases s) (auto simp: startsWith_def)

lemma isRecentReal_iff:
  "isRecentReal t c \<longleftrightarrow>
     (case timestamp c of None \<Rightarrow> False | Some ts \<Rightarrow> t - ts < 5 * 60 * 1000)
     \<and> startsWith (tc_id c) ''real-traffic-''"
  by (simp add: isRecentReal_def)

text \<open>
  C4. With the SDK loaded and every cached row carrying an identifier, the cached
  conditions that are less than five minutes old and whose identifier starts with
  \<^verbatim>\<open>real-traffic-\<close> are what \<^verbatim>\<open>getCurrentTrafficConditions\<close> returns when there is any,
  without a live fetch; when there is none it returns what the live fetch, or else the
  simulation, gives. A condition whose identifier starts with \<^verbatim>\<open>simulation-\<close> is never
  among those served from the cache.
\<close>

theorem cache_serves_recent_real_only:
  assumes "sdk_load w = None" and "google_maps w"
    and "those (map cachedCondition
           (SupabaseService_getTrafficConditions (math w) (supabase_configured w)
              (cache_query w) loc radius)) = Some conditions"
    and "served =
           filter (\<lambda>c. (case timestamp c of
                           None \<Rightarrow> False
                         | Some ts \<Rightarrow> int (now w) - ts < 5 * 60 * 1000)
                        \<and> startsWith (tc_id c) ''real-traffic-'')
                  conditions"
  shows "(served \<noteq> [] \<longrightarrow> getCurrentTrafficConditions w loc radius = served)
       \<and> (served = [] \<longrightarrow>
            getCurrentTrafficConditions w loc radius =
              (if fetchRealTrafficData w loc radius \<noteq> [] then fetchRealTrafficData w loc radius
               else generateLocationAwareSimulation w loc))
       \<and> (\<forall>c. c \<in> set served \<longleftrightarrow>
              c \<in> set conditions
              \<and> (\<exists>ts. timestamp c = Some ts \<and> int (now w) - ts < 5 * 60 * 1000)
              \<and> startsWith (tc_id c) ''real-traffic-'')
       \<and> (\<forall>c. startsWith (tc_id c) ''simulation-'' \<longrightarrow> c \<notin> set served)"
proof -
  let ?rows = "SupabaseService_getTrafficConditions (math w) (supabase_configured w)
                 (cache_query w) loc radius"
  have served: "served = filter (isRecentReal (int (now w))) conditions"
    unfolding assms(4) by (rule filter_cong) (simp_all add: isRecentReal_iff)
  have empty: "conditions = []" if "?rows = []"
    using assms(3) that by simp
  have cache: "cachedConditions (int (now w)) ?rows = (if served \<noteq> [] then Some served else None)"
    using assms(3) empty served by (auto simp: cachedConditions_def Let_def)
  have run: "getCurrentTrafficConditions w loc radius =
          (case cachedConditions (int (now w)) ?rows of
             Some cs \<Rightarrow> cs
           | None \<Rightarrow>
               if fetchRealTrafficData w loc radius \<noteq> [] then fetchRealTrafficData w loc radius
               else generateLocationAwareSimulation w loc)"
    using assms(1,2) by (simp add: getCurrentTrafficConditions_def Let_def split: option.splits)
  have member: "c \<in> set served \<longleftrightarrow>
              c \<in> set conditions
              \<and> (\<exists>ts. timestamp c = Some ts \<and> int (now w) - ts < 5 * 60 * 1000)
              \<and> startsWith (tc_id c) ''real-traffic-''" for c
    unfolding assms(4) by (auto split: option.splits)
  have sim: "c \<notin> set served" if "startsWith (tc_id c) ''simulation-''" for c
    using member [of c] startsWith_simulation_not_real [OF that] by simp
  from run cache member sim show ?thesis
    by simp
qed

lemma sample_rows_in_radius:
  "SupabaseService_getTrafficConditions sample_math True
     (Inr (Some (map (\<lambda>(i, t). sample_row i t) its))) origin_point 10
   = map (\<lambda>(i, t). sample_row i t) its"
  by (auto simp: SupabaseService_getTrafficConditions_def origin_point_def sample_row_def
        withinRadius_def sample_distance_here intro!: filter_True)

lemma sample_world_fetches_nothing:
  "fetchRealTrafficData (sample_world rows h) loc radius = []"
  by (simp add: fetchRealTrafficData_def findNearbyPlaces_def sample_world_def)

theorem cache_serves_recent_real_only_witness:
  "map tc_id (getCurrentTrafficConditions
      (sample_world [sample_row ''real-traffic-123'' 760000,
                     sample_row ''simulation-456'' 760000] 8) origin_point 10)
     = [''real-traffic-123'']
   \<and> getCurrentTrafficConditions
        (sample_world [sample_row ''simulation-456'' 760000] 8) origin_point 10
     = generateLocationAwareSimulation
        (sample_world [sample_row ''simulation-456'' 760000] 8) origin_point
   \<and> cachedConditions 1000000 [sample_row ''simulation-456'' 760000] = None
   \<and> cachedConditions 1000000 [sample_row ''real-traffic-123'' 700000] = None"
proof -
  let ?real = "sample_row ''real-traffic-123'' 760000"
  let ?sim = "sample_row ''simulation-456'' 760000"
  obtain c_real where c_real: "cachedCondition ?real = Some c_real"
    and real_id: "tc_id c_real = ''real-traffic-123''"
    and real_ts: "timestamp c_real = Some 760000"
    by (simp add: cachedCondition_def sample_row_def)
  obtain c_sim where c_sim: "cachedCondition ?sim = Some c_sim"
    and sim_id: "tc_id c_sim = ''simulation-456''"
    and sim_ts: "timestamp c_sim = Some 760000"
    by (simp add: cachedCondition_def sample_row_def)
  let ?w2 = "sample_world [?real, ?sim] 8"
  let ?w1 = "sample_world [?sim] 8"
  have loaded: "sdk_load (sample_world rows h) = None" "google_maps (sample_world rows h)"
    "now (sample_world rows h) = 1000000" "supabase_configured (sample_world rows h)"
    "cache_query (sample_world rows h) = Inr (Some rows)"
    "math (sample_world rows h) = sample_math" for rows h
    by (simp_all add: sample_world_def)
  have rows2: "SupabaseService_getTrafficConditions (math ?w2) (supabase_configured ?w2)
                 (cache_query ?w2) origin_point 10 = [?real, ?sim]"
    using sample_rows_in_radius [of "[(''real-traffic-123'', 760000), (''simulation-456'', 760000)]"]
    by (simp add: loaded)
  have rows1: "SupabaseService_getTrafficConditions (math ?w1) (supabase_configured ?w1)
                 (cache_query ?w1) origin_point 10 = [?sim]"
    using sample_rows_in_radius [of "[(''simulation-456'', 760000)]"]
    by (simp add: loaded)
  have conv2: "those (map cachedCondition
                 (SupabaseService_getTrafficConditions (math ?w2) (supabase_configured ?w2)
                 (cache_query ?w2) origin_point 10)) = Some [c_real, c_sim]"
    unfolding rows2 by (simp add: c_real c_sim)
  have conv1: "those (map cachedCondition
                 (SupabaseService_getTrafficConditions (math ?w1) (supabase_configured ?w1)
                 (cache_query ?w1) origin_point 10)) = Some [c_sim]"
    unfolding rows1 by (simp add: c_sim)
  have served2: "[c_real] =
           filter (\<lambda>c. (case timestamp c of
                           None \<Rightarrow> False
                         | Some ts \<Rightarrow> int (now ?w2) - ts < 5 * 60 * 1000)
                        \<and> startsWith (tc_id c) ''real-traffic-'')
                  [c_real, c_sim]"
    by (simp add: loaded real_id real_ts sim_id sim_ts startsWith_def)
  have served1: "[] =
           filter (\<lambda>c. (case timestamp c of
                           None \<Rightarrow> False
                         | Some ts \<Rightarrow> int (now ?w1) - ts < 5 * 60 * 1000)
                        \<and> startsWith (tc_id c) ''real-traffic-'')
                  [c_sim]"
    by (simp add: loaded sim_id sim_ts startsWith_def)
  have two: "getCurrentTrafficConditions ?w2 origin_point 10 = [c_real]"
    using cache_serves_recent_real_only [OF loaded(1) loaded(2) conv2 served2]
    by simp
  have one: "getCurrentTrafficConditions ?w1 origin_point 10 =
               generateLocationAwareSimulation ?w1 origin_point"
    using cache_serves_recent_real_only [OF loaded(1) loaded(2) conv1 served1]
    by (simp add: sample_world_fetches_nothing)
  have none: "cachedConditions 1000000 [?sim] = None"
    "cachedConditions 1000000 [sample_row ''real-traffic-123'' 700000] = None"
    by (simp_all add: cachedConditions_def cachedCondition_def sample_row_def isRecentReal_def
          startsWith_def)
  from two one none real_id show ?thesis
    by simp
qed


subsection \<open>The hour-of-day simulation\<close>

lemma floor_of_draw:
  assumes "0 \<le> r" and "r < 1" and "0 < n"
  shows "0 \<le> Math_floor (r * of_int n) \<and> Math_floor (r * of_int n) \<le> of_int n - 1"
proof -
  have "0 \<le> r * of_int n"
    using assms by simp
  then have lo: "0 \<le> \<lfloor>r * of_int n\<rfloor>"
    by simp
  have "r * of_int n < of_int n"
    using assms by simp
  then have "\<lfloor>r * of_int n\<rfloor> < n"
    by (simp add: floor_less_iff)
  then have hi: "\<lfloor>r * of_int n\<rfloor> \<le> n - 1"
    by simp
  have "real_of_int \<lfloor>r * of_int n\<rfloor> \<le> real_of_int (n - 1)"
    using hi by (simp only: of_int_le_iff)
  with lo show ?thesis
    by (simp add: Math_floor_def)
qed

lemma simulatedCondition_table:
  assumes draws: "\<forall>k. 0 \<le> random w k \<and> random w k < 1"
    and c: "simulatedCondition w loc cityName n i k = (c, k')"
  shows "startsWith (tc_id c) ''simulation-''"
    and "tc_confidence c = 70"
    and "7 \<le> getHours w \<and> getHours w \<le> 9 \<Longrightarrow>
           severity c \<in> {Moderate, High} \<and> 15 \<le> speed c \<and> speed c \<le> 35"
    and "22 \<le> getHours w \<or> getHours w \<le> 5 \<Longrightarrow>
           severity c = Low \<and> 45 \<le> speed c \<and> speed c \<le> 65"
proof -
  have twenty: "0 \<le> Math_floor (random w j * 20) \<and> Math_floor (random w j * 20) \<le> 19" for j
    using floor_of_draw [of "random w j" 20] draws by simp
  show "startsWith (tc_id c) ''simulation-''"
    using c by (auto simp: simulatedCondition_def Let_def startsWith_def split: if_splits)
  show "tc_confidence c = 70"
    using c by (auto simp: simulatedCondition_def Let_def split: if_splits)
  show "severity c \<in> {Moderate, High} \<and> 15 \<le> speed c \<and> speed c \<le> 35"
    if "7 \<le> getHours w \<and> getHours w \<le> 9"
    using c that twenty [of "k + 2"]
    by (auto simp: simulatedCondition_def Let_def split: if_splits)
  show "severity c = Low \<and> 45 \<le> speed c \<and> speed c \<le> 65"
    if "22 \<le> getHours w \<or> getHours w \<le> 5"
    using c that twenty [of "k + 1"]
    by (auto simp: simulatedCondition_def Let_def split: if_splits)
qed

lemma simulationLoop_length:
  "length (simulationLoop w loc cityName n ixs k) = length ixs"
  by (induction ixs arbitrary: k) (auto split: prod.splits)

lemma simulationLoop_members:
  assumes "c \<in> set (simulationLoop w loc cityName n ixs k)"
  shows "\<exists>i j k'. simulatedCondition w loc cityName n i j = (c, k')"
  using assms
proof (induction ixs arbitrary: k)
  case Nil
  then show ?case by simp
next
  case (Cons i ixs)
  obtain d k1 where step: "simulatedCondition w loc cityName n i k = (d, k1)"
    by (cases "simulatedCondition w loc cityName n i k")
  with Cons.prems have "c = d \<or> c \<in> set (simulationLoop w loc cityName n ixs k1)"
    by simp
  with step Cons.IH show ?case
    by blast
qed

text \<open>
  C7. When every draw lies in \<open>[0, 1)\<close> the simulation returns between two and four
  conditions, each with an identifier that starts with \<^verbatim>\<open>simulation-\<close> and confidence 70;
  at an hour from 7 to 9 each has level moderate or high and a speed from 15 to 35, and
  at an hour of the night band (22 or later, or 5 or earlier, so at 23) each has level
  low and a speed from 45 to 65.
\<close>

theorem simulation_follows_hour_table:
  assumes "\<forall>k. 0 \<le> random w k \<and> random w k < 1"
  shows "2 \<le> length (generateLocationAwareSimulation w loc)
       \<and> length (generateLocationAwareSimulation w loc) \<le> 4
       \<and> (\<forall>c \<in> set (generateLocationAwareSimulation w loc).
            startsWith (tc_id c) ''simulation-''
            \<and> tc_confidence c = 70
            \<and> (7 \<le> getHours w \<and> getHours w \<le> 9 \<longrightarrow>
                 severity c \<in> {Moderate, High} \<and> 15 \<le> speed c \<and> speed c \<le> 35)
            \<and> (22 \<le> getHours w \<or> getHours w \<le> 5 \<longrightarrow>
                 severity c = Low \<and> 45 \<le> speed c \<and> speed c \<le> 65))"
proof -
  have "0 \<le> random w 0 * 3" and "random w 0 * 3 < 3"
    using assms by simp_all
  then have "0 \<le> \<lfloor>random w 0 * 3\<rfloor>" and "\<lfloor>random w 0 * 3\<rfloor> < 3"
    by (simp_all add: floor_less_iff)
  then have count: "2 \<le> nat (\<lfloor>random w 0 * 3\<rfloor> + 2)" "nat (\<lfloor>random w 0 * 3\<rfloor> + 2) \<le> 4"
    by linarith+
  have len: "length (generateLocationAwareSimulation w loc) = nat (\<lfloor>random w 0 * 3\<rfloor> + 2)"
    by (simp add: generateLocationAwareSimulation_def Let_def simulationLoop_length)
  have each: "startsWith (tc_id c) ''simulation-''
            \<and> tc_confidence c = 70
            \<and> (7 \<le> getHours w \<and> getHours w \<le> 9 \<longrightarrow>
                 severity c \<in> {Moderate, High} \<and> 15 \<le> speed c \<and> speed c \<le> 35)
            \<and> (22 \<le> getHours w \<or> getHours w \<le> 5 \<longrightarrow>
                 severity c = Low \<and> 45 \<le> speed c \<and> speed c \<le> 65)"
    if "c \<in> set (generateLocationAwareSimulation w loc)" for c
  proof -
    from that obtain cityName n i j k' where
      "simulatedCondition w loc cityName n i j = (c, k')"
      unfolding generateLocationAwareSimulation_def Let_def
      by (blast dest: simulationLoop_members)
    from simulatedCondition_table [OF assms this] show ?thesis
      by blast
  qed
  from count len each show ?thesis
    by simp
qed

lemma sample_condition:
  "severity (fst (simulatedCondition (sample_world rows 8) loc city n i k)) = Moderate"
  "speed (fst (simulatedCondition (sample_world rows 8) loc city n i k)) = 25"
  "severity (fst (simulatedCondition (sample_world rows 23) loc city n i k)) = Low"
  "speed (fst (simulatedCondition (sample_world rows 23) loc city n i k)) = 55"
  "tc_confidence (fst (simulatedCondition (sample_world rows h) loc city n i k)) = 70"
  "tc_id (fst (simulatedCondition (sample_world rows h) loc city n i k))
     = ''simulation-'' @ show_nat 1000000 @ ''-'' @ show_nat i"
  by (simp_all add: simulatedCondition_def Let_def sample_world_def Math_floor_def
        case_prod_beta)

lemma map_simulationLoop:
  "map f (simulationLoop w loc city n [] k) = []"
  "map f (simulationLoop w loc city n (i # rest) k) =
     f (fst (simulatedCondition w loc city n i k))
       # map f (simulationLoop w loc city n rest (snd (simulatedCondition w loc city n i k)))"
  by (simp_all add: case_prod_beta)

theorem simulation_follows_hour_table_witness:
  "map severity (generateLocationAwareSimulation (sample_world [] 8) origin_point)
     = [Moderate, Moderate, Moderate]
   \<and> map speed (generateLocationAwareSimulation (sample_world [] 8) origin_point)
     = [25, 25, 25]
   \<and> map severity (generateLocationAwareSimulation (sample_world [] 23) origin_point)
     = [Low, Low, Low]
   \<and> map speed (generateLocationAwareSimulation (sample_world [] 23) origin_point)
     = [55, 55, 55]
   \<and> map tc_confidence (generateLocationAwareSimulation (sample_world [] 23) origin_point)
     = [70, 70, 70]
   \<and> map tc_id (generateLocationAwareSimulation (sample_world [] 23) origin_point)
     = [''simulation-1000000-0'', ''simulation-1000000-1'', ''simulation-1000000-2'']
   \<and> 2 \<le> length (generateLocationAwareSimulation (sample_world [] 8) origin_point)
   \<and> length (generateLocationAwareSimulation (sample_world [] 8) origin_point) \<le> 4"
proof -
  have draws: "\<forall>k. 0 \<le> random (sample_world [] h) k \<and> random (sample_world [] h) k < 1" for h
    by (simp add: sample_world_def)
  have three: "nat (\<lfloor>random (sample_world [] h) 0 * 3\<rfloor> + 2) = 3" for h
    by (simp add: sample_world_def)
  have ixs: "[0..<3] = [0, 1, 2]"
    by (simp add: upt_conv_Cons)
  have digits: "show_nat 1000000 = ''1000000''" "show_nat 0 = ''0''" "show_nat 1 = ''1''"
    "show_nat 2 = ''2''"
    by (simp_all add: show_nat.simps)
  have run: "map severity (generateLocationAwareSimulation (sample_world [] 8) origin_point)
       = [Moderate, Moderate, Moderate]"
    "map speed (generateLocationAwareSimulation (sample_world [] 8) origin_point) = [25, 25, 25]"
    "map severity (generateLocationAwareSimulation (sample_world [] 23) origin_point)
       = [Low, Low, Low]"
    "map speed (generateLocationAwareSimulation (sample_world [] 23) origin_point) = [55, 55, 55]"
    "map tc_confidence (generateLocationAwareSimulation (sample_world [] 23) origin_point)
       = [70, 70, 70]"
    "map tc_id (generateLocationAwareSimulation (sample_world [] 23) origin_point)
     = [''simulation-1000000-0'', ''simulation-1000000-1'', ''simulation-1000000-2'']"
    unfolding generateLocationAwareSimulation_def Let_def three ixs
    by (simp_all only: map_simulationLoop sample_condition digits append.simps)
  from simulation_follows_hour_table [OF draws [of 8], of origin_point] run
  show ?thesis
    by simp
qed


subsection \<open>The forecast\<close>

lemma severityValue_int:
  "\<exists>j. severityValue s = of_int j \<and> 0 \<le> j \<and> j \<le> 90"
proof (cases s)
  case Low
  have "severityValue Low = of_int 25" by simp
  with Low show ?thesis by fastforce
next
  case Moderate
  have "severityValue Moderate = of_int 50" by simp
  with Moderate show ?thesis by fastforce
next
  case High
  have "severityValue High = of_int 75" by simp
  with High show ?thesis by fastforce
next
  case Severe
  have "severityValue Severe = of_int 90" by simp
  with Severe show ?thesis by fastforce
qed

text \<open>The running sum stays an integer below \<open>2 ^ 53\<close>, so no addition rounds.\<close>

lemma foldl_dadd_exact:
  assumes "0 \<le> a" and "a + 90 * int (length cs) < 2 ^ 53"
  shows "foldl (\<lambda>sum c. dadd sum (severityValue (severity c))) (of_int a) cs
           = of_int a + sum_list (map (\<lambda>c. severityValue (severity c)) cs)
         \<and> (\<exists>t. of_int a + sum_list (map (\<lambda>c. severityValue (severity c)) cs) = of_int t
                \<and> 0 \<le> t \<and> t < 2 ^ 53)"
  using assms
proof (induction cs arbitrary: a)
  case Nil
  then show ?case by auto
next
  case (Cons c cs)
  obtain j where j: "severityValue (severity c) = of_int j" "0 \<le> j" "j \<le> 90"
    using severityValue_int by blast
  have small: "\<bar>a + j\<bar> < 2 ^ 53"
    using Cons.prems j by simp
  have step: "dadd (of_int a) (of_int j) = of_int a + of_int j"
    using fl_of_int [OF small] by (simp add: dadd_def)
  have "0 \<le> a + j" and "a + j + 90 * int (length cs) < 2 ^ 53"
    using Cons.prems j by simp_all
  from Cons.IH [OF this] show ?case
    by (simp add: step j add.assoc)
qed

lemma calculateCurrentCongestionLevel_rounds:
  assumes "length conditions < 2 ^ 32"
  shows "calculateCurrentCongestionLevel conditions = Math_round (averageSeverity conditions)"
proof (cases "conditions = []")
  case True
  have "Math_round 20 = 20"
    using Math_round_of_int [of 20] by simp
  with True show ?thesis
    by (simp add: calculateCurrentCongestionLevel_def averageSeverity_def)
next
  case False
  have "int (length conditions) < 2 ^ 32"
    using assms by (metis of_nat_less_numeral_power_cancel_iff)
  then have "0 + 90 * int (length conditions) < 2 ^ 53"
    by simp
  from foldl_dadd_exact [OF _ this] False show ?thesis
    by (simp add: calculateCurrentCongestionLevel_def averageSeverity_def Let_def)
qed

lemma confidence_exact:
  assumes "i < 12"
  shows "dsub 95 (dmul (real i) 3) = 95 - 3 * real i"
proof -
  have "dmul (real i) 3 = fl (of_int (int i * 3))"
    by (simp add: dmul_def)
  also have "\<dots> = of_int (int i * 3)"
    using assms by (intro fl_of_int) simp
  finally have prod: "dmul (real i) 3 = of_int (int i * 3)" .
  have "dsub 95 (dmul (real i) 3) = fl (of_int (95 - int i * 3))"
    by (simp add: dsub_def prod)
  also have "\<dots> = of_int (95 - int i * 3)"
    using assms by (intro fl_of_int) simp
  finally show ?thesis
    by simp
qed

lemma hourly_factor_range:
  assumes "h < 24"
  shows "fl 0.1 \<le> getHourlyTrafficFactor h \<and> getHourlyTrafficFactor h \<le> fl 1.3"
proof -
  from assms have "h \<in> {0, 1, 2, 3, 4, 5, 6, 7, 8, 9, 10, 11, 12, 13, 14, 15, 16, 17, 18, 19, 20,
                21, 22, 23}"
    by simp presburger
  then show ?thesis
    by (elim insertE emptyE)
       (simp_all add: getHourlyTrafficFactor_def trafficPatterns_def table_literals)
qed

lemma prediction_entry:
  assumes "i < 12" and "length conditions < 2 ^ 32"
  shows "congestionLevel (predictions (generateRealTimePredictions w conditions) ! i)
           = min 100 (max 0 (Math_round
               (dmul (Math_round (averageSeverity conditions))
                  (getHourlyTrafficFactor ((getHours w + i) mod 24)))))
         \<and> confidence (predictions (generateRealTimePredictions w conditions) ! i)
           = max 60 (95 - 3 * real i)"
proof -
  from assms(1) have "[0..<12] ! i = i" and "i < length [0..<12]"
    by simp_all
  then show ?thesis
    unfolding generateRealTimePredictions_def Let_def
    by (simp add: calculateCurrentCongestionLevel_rounds [OF assms(2)]
          confidence_exact [OF assms(1)] del: upt_rec_numeral)
qed

text \<open>The sample values, as the doubles they are.\<close>

lemma sample_averages:
  "averageSeverity [condition_of_level Low, condition_of_level Moderate] = 75 / 2"
  "averageSeverity [condition_of_level High, condition_of_level Severe, condition_of_level Severe]
     = 85"
  "averageSeverity [] = 20"
  using fl_eval [of 5 "75 / 2"]
  by (simp_all add: averageSeverity_def condition_of_level_def ddiv_def round_even_def
        power_int_minus)

lemma sample_rounded_averages:
  "Math_round (75 / 2) = 38" "Math_round 85 = 85" "Math_round 20 = 20"
  by (simp_all add: Math_round_def)

lemma sample_factors:
  "getHourlyTrafficFactor 8 = fl 1.2"
  "getHourlyTrafficFactor 9 = fl 0.8"
  "getHourlyTrafficFactor 10 = fl 0.6"
  "getHourlyTrafficFactor 11 = fl 0.7"
  "getHourlyTrafficFactor 17 = fl 1.3"
  "getHourlyTrafficFactor 3 = fl 0.1"
  by (simp_all add: getHourlyTrafficFactor_def trafficPatterns_def table_literals)

lemma sample_double_products:
  "dmul 38 (fl (6 / 5)) = 6417629469002957 / 140737488355328"
  "dmul 38 (fl (4 / 5)) = 8556839292003943 / 281474976710656"
  "dmul 38 (fl (3 / 5)) = 6417629469002957 / 281474976710656"
  "dmul 20 (fl (13 / 10)) = 26"
  "dmul 85 (fl (7 / 10)) = 8373880557142015 / 140737488355328"
  "dmul (75 / 2) (fl (6 / 5)) = 45"
  using fl_eval [of 5 "38 * (5404319552844595 / 4503599627370496)"]
    fl_eval [of 4 "38 * (3602879701896397 / 4503599627370496)"]
    fl_eval [of 4 "38 * (5404319552844595 / 9007199254740992)"]
    fl_eval [of 4 "20 * (5854679515581645 / 4503599627370496)"]
    fl_eval [of 5 "85 * (3152519739159347 / 4503599627370496)"]
    fl_eval [of 5 "75 / 2 * (5404319552844595 / 4503599627370496)"]
  by (simp_all add: dmul_def table_literals round_even_def power_int_minus)

lemma sample_products:
  "Math_round (dmul 38 (fl (6 / 5))) = 46"
  "Math_round (dmul 38 (fl (4 / 5))) = 30"
  "Math_round (dmul 38 (fl (3 / 5))) = 23"
  "Math_round (dmul 20 (fl (13 / 10))) = 26"
  "Math_round (dmul 85 (fl (7 / 10))) = 59"
  "Math_round (dmul (75 / 2) (fl (6 / 5))) = 45"
  unfolding sample_double_products by (simp_all add: Math_round_def)

text \<open>
  C6, amended. For every list of current conditions (an array, so shorter than \<open>2 ^ 32\<close>)
  and every hour, the forecast has twelve entries; entry \<open>i\<close> has the congestion level
  \<open>round (base * factor ((hour + i) mod 24))\<close> clamped to \<open>[0, 100]\<close>, the product being
  the double product, where the base is the unweighted average of low = 25,
  moderate = 50, high = 75, severe = 90 over the conditions (20 for none) rounded to the
  nearest integer, and the confidence \<open>max 60 (95 - 3 * i)\<close>. The factor lies between
  the doubles 0.1, taken at hour 3, and 1.3, taken at hour 17. \<^verbatim>\<open>getTrafficPredictions\<close>
  returns this forecast for the current conditions within radius 5.
\<close>

theorem forecast_from_rounded_average:
  assumes "length conditions < 2 ^ 32"
  shows "length (predictions (generateRealTimePredictions w conditions)) = 12
   \<and> (\<forall>i<12.
         congestionLevel (predictions (generateRealTimePredictions w conditions) ! i)
           = min 100 (max 0 (Math_round
               (dmul (Math_round (averageSeverity conditions))
                  (getHourlyTrafficFactor ((getHours w + i) mod 24)))))
         \<and> confidence (predictions (generateRealTimePredictions w conditions) ! i)
           = max 60 (95 - 3 * real i))
   \<and> (\<forall>h<24. fl 0.1 \<le> getHourlyTrafficFactor h \<and> getHourlyTrafficFactor h \<le> fl 1.3)
   \<and> getHourlyTrafficFactor 3 = fl 0.1
   \<and> getHourlyTrafficFactor 17 = fl 1.3
   \<and> getTrafficPredictions w loc
       = generateRealTimePredictions w (getCurrentTrafficConditions w loc 5)"
proof -
  have len: "length (predictions (generateRealTimePredictions w conditions)) = 12"
    by (simp add: generateRealTimePredictions_def Let_def)
  from len prediction_entry [OF _ assms, of _ w] hourly_factor_range sample_factors(5,6)
  show ?thesis
    by (simp add: getTrafficPredictions_def)
qed

theorem forecast_from_rounded_average_witness:
  "map congestionLevel (take 3 (predictions (generateRealTimePredictions (sample_world [] 8)
      [condition_of_level Low, condition_of_level Moderate])))
     = [46, 30, 23]
   \<and> map confidence (take 3 (predictions (generateRealTimePredictions (sample_world [] 8)
      [condition_of_level Low, condition_of_level Moderate])))
     = [95, 92, 89]
   \<and> congestionLevel (predictions (generateRealTimePredictions (sample_world [] 11)
      [condition_of_level High, condition_of_level Severe, condition_of_level Severe]) ! 0)
     = 59
   \<and> confidence (predictions (generateRealTimePredictions (sample_world [] 8) []) ! 11) = 62
   \<and> congestionLevel (predictions (generateRealTimePredictions (sample_world [] 8) []) ! 9)
     = 26
   \<and> length (predictions (generateRealTimePredictions (sample_world [] 8) [])) = 12"
proof -
  let ?w = "sample_world [] 8"
  let ?cs = "[condition_of_level Low, condition_of_level Moderate]"
  let ?hs = "[condition_of_level High, condition_of_level Severe, condition_of_level Severe]"
  let ?p = "predictions (generateRealTimePredictions ?w ?cs)"
  let ?q = "predictions (generateRealTimePredictions ?w [])"
  let ?r = "predictions (generateRealTimePredictions (sample_world [] 11) ?hs)"
  have hour: "getHours (sample_world [] h) = h" for h
    by (simp add: sample_world_def)
  have short: "length ?cs < 2 ^ 32" "length ([] :: TrafficCondition list) < 2 ^ 32"
    "length ?hs < 2 ^ 32"
    by simp_all
  have entry: "congestionLevel (?p ! i)
           = min 100 (max 0 (Math_round (dmul 38 (getHourlyTrafficFactor ((8 + i) mod 24)))))
         \<and> confidence (?p ! i) = max 60 (95 - 3 * real i)" if "i < 12" for i
    using forecast_from_rounded_average [OF short(1), of ?w origin_point] that
    unfolding hour sample_averages sample_rounded_averages by blast
  have entry_none: "congestionLevel (?q ! i)
           = min 100 (max 0 (Math_round (dmul 20 (getHourlyTrafficFactor ((8 + i) mod 24)))))
         \<and> confidence (?q ! i) = max 60 (95 - 3 * real i)" if "i < 12" for i
    using forecast_from_rounded_average [OF short(2), of ?w origin_point] that
    unfolding hour sample_averages sample_rounded_averages by blast
  have entry_high: "congestionLevel (?r ! i)
           = min 100 (max 0 (Math_round (dmul 85 (getHourlyTrafficFactor ((11 + i) mod 24)))))"
    if "i < 12" for i
    using forecast_from_rounded_average [OF short(3), of "sample_world [] 11" origin_point] that
    unfolding hour sample_averages sample_rounded_averages by blast
  have len: "length ?p = 12" "length ?q = 12"
    using forecast_from_rounded_average [OF short(1), of ?w origin_point]
      forecast_from_rounded_average [OF short(2), of ?w origin_point]
    by blast+
  have p0: "congestionLevel (?p ! 0) = 46" "confidence (?p ! 0) = 95"
    using entry [of 0] by (simp_all add: sample_factors sample_products)
  have p1: "congestionLevel (?p ! 1) = 30" "confidence (?p ! 1) = 92"
    using entry [of 1] by (simp_all add: sample_factors sample_products)
  have p2: "congestionLevel (?p ! 2) = 23" "confidence (?p ! 2) = 89"
    using entry [of 2] by (simp_all add: sample_factors sample_products)
  have q: "confidence (?q ! 11) = 62" "congestionLevel (?q ! 9) = 26"
    using entry_none [of 11] entry_none [of 9] by (simp_all add: sample_factors sample_products)
  have r: "congestionLevel (?r ! 0) = 59"
    using entry_high [of 0] by (simp add: sample_factors sample_products)
  have "take 3 ?p = [?p ! 0, ?p ! 1, ?p ! 2]"
    using len(1) by (simp add: numeral_3_eq_3 numeral_2_eq_2 take_Suc_conv_app_nth)
  with p0 p1 p2 have "map congestionLevel (take 3 ?p) = [46, 30, 23]"
    "map confidence (take 3 ?p) = [95, 92, 89]"
    by simp_all
  with q r len show ?thesis
    by simp
qed

text \<open>
  C6 as worded, with the average itself as the base, fails: for one low and one moderate
  condition at hour 8 the first entry is \<open>round (38 * 1.2) = 46\<close>, while the average 37.5
  gives \<open>round (37.5 * 1.2) = 45\<close>, as a double product and as an exact one.
\<close>

theorem forecast_unrounded_average_counterexample:
  "congestionLevel (predictions (generateRealTimePredictions (sample_world [] 8)
      [condition_of_level Low, condition_of_level Moderate]) ! 0) = 46
   \<and> congestionFromAverage [condition_of_level Low, condition_of_level Moderate] 8 0 = 45
   \<and> min 100 (max 0 (Math_round (75 / 2 * (12 / 10)))) = (45 :: real)"
proof -
  let ?w = "sample_world [] 8"
  let ?cs = "[condition_of_level Low, condition_of_level Moderate]"
  have "getHours ?w = 8"
    by (simp add: sample_world_def)
  then have "congestionLevel (predictions (generateRealTimePredictions ?w ?cs) ! 0)
          = min 100 (max 0 (Math_round (dmul 38 (getHourlyTrafficFactor ((8 + 0) mod 24)))))"
    using prediction_entry [of 0 ?cs ?w]
    unfolding sample_averages sample_rounded_averages by simp
  then have "congestionLevel (predictions (generateRealTimePredictions ?w ?cs) ! 0) = 46"
    by (simp add: sample_factors sample_products)
  moreover have "congestionFromAverage ?cs 8 0 = 45"
    unfolding congestionFromAverage_def sample_averages
    by (simp add: sample_factors sample_products)
  moreover have "min 100 (max 0 (Math_round (75 / 2 * (12 / 10)))) = (45 :: real)"
    by (simp add: Math_round_def)
  ultimately show ?thesis
    by simp
qed

subsection \<open>One radius, two units\<close>












subsection \<open>The LLM insight service\<close>

lemma falsy_defaulted:
  "\<not> truthy v \<Longrightarrow> ToNumber text_number (or_else v (JNumber d)) = Inr (Some d)"
  by (auto simp: or_else_def split: option.splits)

lemma clamp_of_number:
  "lo \<le> hi \<Longrightarrow> between lo hi (Math_min (Math_max (Some x) (Some lo)) (Some hi))"
  by (simp add: between_def Math_min_def Math_max_def)

lemma clamp_of_NaN: "Math_min (Math_max None (Some lo)) (Some hi) = None"
  by (simp add: Math_min_def Math_max_def)

text \<open>
  What holds of the claim. A falsy \<^verbatim>\<open>confidence\<close>, \<^verbatim>\<open>predictedCongestion\<close> or
  \<^verbatim>\<open>estimatedDelay\<close> (absent, \<^verbatim>\<open>null\<close>, \<^verbatim>\<open>false\<close>, \<open>0\<close> or the empty string) is replaced by
  its default when the function returns, so a confidence of 0 becomes 0.7 and a
  predicted congestion of 0 becomes 50, while an estimated delay of 0 stays 0.
\<close>

lemma falsy_fields_defaulted:
  assumes "validateAndFormatResponse text_number (JObject props) = Inr r"
  shows "\<not> truthy (map_of props ''confidence'') \<Longrightarrow> ai_confidence r = Some 0.7"
    and "\<not> truthy (map_of props ''predictedCongestion'') \<Longrightarrow> predictedCongestion r = Some 50"
    and "\<not> truthy (map_of props ''estimatedDelay'') \<Longrightarrow> estimatedDelay r = Some 0"
  using assms
  by (auto simp: validateAndFormatResponse_def falsy_defaulted Math_min_def Math_max_def
        split: sum.splits)

text \<open>
  Each of the three comes back within its range when its conversion gives a number, as
  it does for a number, for \<^verbatim>\<open>true\<close> and for an absent property.
\<close>

lemma converted_numbers_clamped:
  assumes "validateAndFormatResponse text_number (JObject props) = Inr r"
  shows "ToNumber text_number (or_else (map_of props ''confidence'') (JNumber 0.7)) = Inr (Some x)
           \<Longrightarrow> between 0 1 (ai_confidence r)"
    and "ToNumber text_number (or_else (map_of props ''predictedCongestion'') (JNumber 50))
           = Inr (Some x) \<Longrightarrow> between 0 100 (predictedCongestion r)"
    and "ToNumber text_number (or_else (map_of props ''estimatedDelay'') (JNumber 0))
           = Inr (Some x) \<Longrightarrow> between 0 60 (estimatedDelay r)"
  using assms
  by (auto simp: validateAndFormatResponse_def clamp_of_number split: sum.splits)

lemma sample_answers_clamped:
  "validateAndFormatResponse text_number
     (JObject [(''confidence'', JNumber 0), (''predictedCongestion'', JNumber 0),
               (''estimatedDelay'', JNumber 0)])
   = Inr \<lparr>ai_severity = JString ''moderate'', ai_confidence = Some 0.7,
           ai_summary = JString ''Traffic analysis completed'',
           recommendations = [JString ''Check traffic before traveling''],
           predictedCongestion = Some 50, bestTimeToTravel = JString ''Now'',
           alternativeRoutesSuggestion = JString ''Consider alternative routes'',
           estimatedDelay = Some 0\<rparr>"
  "validateAndFormatResponse text_number
     (JObject [(''confidence'', JBool True), (''predictedCongestion'', JNumber (- 4)),
               (''estimatedDelay'', JNumber 75)])
   = Inr \<lparr>ai_severity = JString ''moderate'', ai_confidence = Some 1,
           ai_summary = JString ''Traffic analysis completed'',
           recommendations = [JString ''Check traffic before traveling''],
           predictedCongestion = Some 0, bestTimeToTravel = JString ''Now'',
           alternativeRoutesSuggestion = JString ''Consider alternative routes'',
           estimatedDelay = Some 60\<rparr>"
  by (simp_all add: validateAndFormatResponse_def or_else_def Math_min_def Math_max_def)

text \<open>An object with a property \<^verbatim>\<open>toString\<close> in place of a number makes the function throw.\<close>

lemma unconvertible_object_throws:
  "validateAndFormatResponse text_number
     (JObject [(''estimatedDelay'', JObject [(''toString'', JNull)])]) = Inl TypeError"
  by (simp add: validateAndFormatResponse_def or_else_def)

text \<open>
  C10. The function clamps \<^verbatim>\<open>confidence\<close> into \<open>[0, 1]\<close> with \<^verbatim>\<open>Math.min\<close> and \<^verbatim>\<open>Math.max\<close>,
  and checks \<^verbatim>\<open>recommendations\<close> with \<^verbatim>\<open>Array.isArray\<close>, but it does not check that
  \<^verbatim>\<open>confidence\<close> is a number: for the answer \<^verbatim>\<open>{"confidence": {}}\<close> the object is truthy, so
  the default is not taken, it converts to \<^verbatim>\<open>NaN\<close>, and \<^verbatim>\<open>NaN\<close> passes through the clamp.
  The function returns a confidence of \<^verbatim>\<open>NaN\<close>, which is not in \<open>[0, 1]\<close>; the other
  properties get their defaults.
\<close>

theorem object_confidence_returned_as_NaN:
  "validateAndFormatResponse text_number (JObject [(''confidence'', JObject [])])
     = Inr \<lparr>ai_severity = JString ''moderate'', ai_confidence = None,
             ai_summary = JString ''Traffic analysis completed'',
             recommendations = [JString ''Check traffic before traveling''],
             predictedCongestion = Some 50, bestTimeToTravel = JString ''Now'',
             alternativeRoutesSuggestion = JString ''Consider alternative routes'',
             estimatedDelay = Some 0\<rparr>
   \<and> \<not> between 0 1 None"
  by (simp add: validateAndFormatResponse_def or_else_def Math_min_def Math_max_def between_def)

end
